theory Spec2Isabelle
  imports Complex_Main
begin

section \<open>Order execution engine: data model\<close>

text \<open>
  The engine accepts orders, asks two simulated venues (Raydium, Meteora) for a quote,
  selects one, simulates the swap and records every status change in a cache, a
  relational store and a per-order socket.

  Conventions of the embedding.
  \<^item> A JavaScript \<open>number\<close> is a \<^typ>\<open>real\<close>: infinities and \<open>NaN\<close> of IEEE doubles are
    not modelled (the one place where \<open>NaN\<close> arises from data, \<open>parseInt\<close>, has its own type
    below), and rounding is not modelled where a number is only computed and stored.
    Where the program decides on computed numbers, in \<open>selectBestDex\<close>, the sum of two
    numbers is the sum as the machine computes it (binary64, rounded), which the
    function takes as its first argument \<open>numberAdd\<close>; comparing two numbers is exact.
  \<^item> \<open>Math.random()\<close> is a function \<open>rnd :: nat \<Rightarrow> real\<close>: \<open>rnd i\<close> is the value of the
    \<open>i\<close>-th draw made during one call.
  \<^item> Artificial delays and log output have no effect on results and are left out.
  \<^item> A record field carries a short prefix naming its interface, since several
    interfaces of the source share field names (\<open>dex\<close>, \<open>price\<close>, \<open>status\<close>).
\<close>

subsection \<open>types/order.ts and types/dex.ts\<close>

datatype OrderType = Market | Limit | Sniper

datatype OrderStatus = Pending | Routing | Building | Submitted | Confirmed | Failed

fun statusString :: "OrderStatus \<Rightarrow> string" where
  "statusString Pending = ''pending''"
| "statusString Routing = ''routing''"
| "statusString Building = ''building''"
| "statusString Submitted = ''submitted''"
| "statusString Confirmed = ''confirmed''"
| "statusString Failed = ''failed''"

datatype DexName = Raydium | Meteora

fun dexString :: "DexName \<Rightarrow> string" where
  "dexString Raydium = ''raydium''"
| "dexString Meteora = ''meteora''"

record ExecutionData =
  ed_txHash :: "string option"
  ed_executedPrice :: "real option"
  ed_dex :: "string option"
  ed_gasUsed :: "real option"
  ed_error :: "string option"

text \<open>
  At run time the \<open>status\<close> of an order is a string: the route that cancels an order
  stores \<open>cancelled\<close>, which the type \<open>OrderStatus\<close> does not list.
\<close>

record Order =
  o_id :: string
  o_type :: OrderType
  o_tokenIn :: string
  o_tokenOut :: string
  o_amountIn :: real
  o_slippage :: real
  o_status :: string
  o_createdAt :: nat
  o_updatedAt :: "nat option"
  o_executionData :: "ExecutionData option"
  o_userId :: "string option"

record DexQuote =
  q_dex :: DexName
  q_price :: real
  q_fee :: real
  q_liquidity :: real
  q_estimatedGas :: real
  q_timestamp :: nat
  q_amountOut :: real
  q_priceImpact :: real

record SwapResult =
  sr_txHash :: string
  sr_executedPrice :: real
  sr_gasUsed :: real
  sr_slippageImpact :: real
  sr_dex :: DexName
  sr_timestamp :: nat

text \<open>
  The \<open>reason\<close> of a routing decision is a sentence built from one of two templates and
  two numbers; the model keeps the template, the venue it names and the numbers in the
  order the sentence prints them, and leaves the decimal formatting out.
\<close>

datatype Reason =
    BetterTotalCost DexName real real
  | HigherLiquidity DexName real real

record RoutingDecision =
  rd_dex :: DexName
  rd_price :: real
  rd_fee :: real
  rd_estimatedGas :: real
  rd_reason :: Reason
  rd_alternatives :: "DexQuote list"


section \<open>services/mockDexRouter.ts\<close>

definition basePrice :: real where
  "basePrice = 100"

text \<open>
  \<open>getRaydiumQuote\<close> and \<open>getMeteorQuote\<close> draw three random numbers each: draw 0 sets the
  delay, draw 1 the price variance, draw 2 the liquidity. \<open>now\<close> is the clock reading.
\<close>

definition getRaydiumQuote :: "(nat \<Rightarrow> real) \<Rightarrow> nat \<Rightarrow> string \<Rightarrow> string \<Rightarrow> real \<Rightarrow> DexQuote" where
  "getRaydiumQuote rnd now tokenIn tokenOut amount =
     (let priceVariance = 0.98 + rnd 1 * 0.04;
          price = basePrice * priceVariance;
          fee = 0.0025;
          amountOut = amount * price * (1 - fee);
          priceImpact = (amount / 1000000) * 0.1
      in \<lparr> q_dex = Raydium,
           q_price = price,
           q_fee = fee,
           q_liquidity = 1000000 + rnd 2 * 500000,
           q_estimatedGas = 0.0001,
           q_timestamp = now,
           q_amountOut = amountOut,
           q_priceImpact = priceImpact \<rparr>)"

definition getMeteorQuote :: "(nat \<Rightarrow> real) \<Rightarrow> nat \<Rightarrow> string \<Rightarrow> string \<Rightarrow> real \<Rightarrow> DexQuote" where
  "getMeteorQuote rnd now tokenIn tokenOut amount =
     (let priceVariance = 0.97 + rnd 1 * 0.06;
          price = basePrice * priceVariance;
          fee = 0.002;
          amountOut = amount * price * (1 - fee);
          priceImpact = (amount / 800000) * 0.08
      in \<lparr> q_dex = Meteora,
           q_price = price,
           q_fee = fee,
           q_liquidity = 800000 + rnd 2 * 400000,
           q_estimatedGas = 0.00008,
           q_timestamp = now,
           q_amountOut = amountOut,
           q_priceImpact = priceImpact \<rparr>)"

text \<open>
  \<open>selectBestDex\<close>: the effective prices of the source are computed and never used, so
  they do not appear. The venue is chosen by the position of the quote (first quote
  Raydium, second Meteora), not by the quote's own \<open>dex\<close> field. \<open>numberAdd\<close> is the addition of
  two numbers as the machine computes it; the two total costs are such sums.
\<close>

definition selectBestDex ::
  "(real \<Rightarrow> real \<Rightarrow> real) \<Rightarrow> DexQuote \<Rightarrow> DexQuote \<Rightarrow> real \<Rightarrow> RoutingDecision" where
  "selectBestDex numberAdd raydiumQuote meteoraQuote amount =
     (let alternatives = [raydiumQuote, meteoraQuote];
          raydiumTotalCost = numberAdd (q_amountOut raydiumQuote) (q_estimatedGas raydiumQuote);
          meteoraTotalCost = numberAdd (q_amountOut meteoraQuote) (q_estimatedGas meteoraQuote);
          (selectedDex, reason) =
            (if raydiumTotalCost > meteoraTotalCost then
               (Meteora, BetterTotalCost Meteora meteoraTotalCost raydiumTotalCost)
             else if meteoraTotalCost > raydiumTotalCost then
               (Raydium, BetterTotalCost Raydium raydiumTotalCost meteoraTotalCost)
             else if q_liquidity raydiumQuote > q_liquidity meteoraQuote then
               (Raydium, HigherLiquidity Raydium (q_liquidity raydiumQuote) (q_liquidity meteoraQuote))
             else
               (Meteora, HigherLiquidity Meteora (q_liquidity meteoraQuote) (q_liquidity raydiumQuote)));
          selectedQuote = (if selectedDex = Raydium then raydiumQuote else meteoraQuote)
      in \<lparr> rd_dex = selectedDex,
           rd_price = q_price selectedQuote,
           rd_fee = q_fee selectedQuote,
           rd_estimatedGas = q_estimatedGas selectedQuote,
           rd_reason = reason,
           rd_alternatives = alternatives \<rparr>)"

text \<open>
  \<open>Number.prototype.toString(radix)\<close> on a non-negative integer, and on a negative one
  with its sign in front. It is used with the radices 10 and 16 only.
\<close>

definition digitChar :: "nat \<Rightarrow> char" where
  "digitChar d = ''0123456789abcdef'' ! d"

function digits :: "nat \<Rightarrow> nat \<Rightarrow> string" where
  "digits b n = (if n < b \<or> b < 2 then [digitChar n] else digits b (n div b) @ [digitChar (n mod b)])"
  by pat_completeness auto
termination
  by (relation "measure (\<lambda>(b, n). n)") auto

definition intToString :: "nat \<Rightarrow> int \<Rightarrow> string" where
  "intToString b i = (if i < 0 then CHR ''-'' # digits b (nat (- i)) else digits b (nat i))"

text \<open>
  \<open>generateMockTxHash\<close>: 64 draws, each turned into one hexadecimal digit. In
  \<open>executeSwap\<close> they are the draws 2 to 65 (draw 0 sets the delay, draw 1 the slippage).
\<close>

definition generateMockTxHash :: "(nat \<Rightarrow> real) \<Rightarrow> string" where
  "generateMockTxHash rnd = concat (map (\<lambda>i. intToString 16 \<lfloor>rnd i * 16\<rfloor>) [0..<64])"

definition executeSwap :: "(nat \<Rightarrow> real) \<Rightarrow> nat \<Rightarrow> DexName \<Rightarrow> Order \<Rightarrow> SwapResult" where
  "executeSwap rnd now dex order =
     (let slippageImpact = 1 - (rnd 1 * o_slippage order);
          executedPrice = basePrice * slippageImpact;
          gasUsed = (if dex = Raydium then 0.0001 else 0.00008)
      in \<lparr> sr_txHash = generateMockTxHash (\<lambda>i. rnd (i + 2)),
           sr_executedPrice = executedPrice,
           sr_gasUsed = gasUsed,
           sr_slippageImpact = slippageImpact,
           sr_dex = dex,
           sr_timestamp = now \<rparr>)"



section \<open>The collaborators: cache, relational store, job queue, sockets\<close>

text \<open>
  A thrown value is either an \<open>Error\<close> with its message or something else; the engine
  tells them apart with \<open>instanceof Error\<close>.
\<close>

datatype exn = Error string | NonError

record SocketStream =
  sock_id :: nat
  sock_send_throws :: bool

record WebSocketConnection =
  c_orderId :: string
  c_socket :: SocketStream
  c_connectedAt :: nat

record WebSocketMessage =
  m_orderId :: string
  m_status :: string
  m_data :: "ExecutionData option"
  m_timestamp :: nat

record BroadcastMessage =
  b_status :: string
  b_data :: "ExecutionData option"
  b_timestamp :: nat

datatype wire = OrderMessage WebSocketMessage | BroadcastPayload BroadcastMessage

text \<open>One call of \<open>socket.send\<close>: the key of the connection, the socket, the text sent, and
  whether the call returned (\<open>True\<close>) or threw (\<open>False\<close>).\<close>

record SendCall =
  sc_orderId :: string
  sc_socket :: nat
  sc_payload :: wire
  sc_delivered :: bool

record RedisOrderHash =
  rh_status :: string
  rh_updatedAt :: nat
  rh_executionData :: "ExecutionData option"

text \<open>Rows of the tables \<open>orders\<close> (keyed by \<open>id\<close>), \<open>order_events\<close> and
  \<open>routing_decisions\<close> created in config/database.ts.\<close>

record OrderRow =
  row_type :: OrderType
  row_token_in :: string
  row_token_out :: string
  row_amount_in :: real
  row_slippage :: real
  row_status :: string
  row_created_at :: nat
  row_updated_at :: nat
  row_execution_data :: "ExecutionData option"
  row_user_id :: "string option"

datatype EventData = ExecData ExecutionData | CancelReason string

record EventRow =
  ev_order_id :: string
  ev_status :: string
  ev_data :: "EventData option"
  ev_timestamp :: nat

record DecisionRow =
  dr_order_id :: string
  dr_selected_dex :: DexName
  dr_price :: real
  dr_fee :: real
  dr_reason :: Reason
  dr_alternatives :: "DexQuote list"
  dr_timestamp :: nat

record Job =
  job_name :: string
  job_data :: Order
  job_id :: string
  job_delay :: nat

text \<open>
  The state outside the engine. \<open>redis_hashes\<close> holds the hashes \<open>order:<id>\<close> and
  \<open>redis_strings\<close> the counters \<open>stats:...\<close>. \<open>jobs\<close> is the list of the jobs handed to
  the queue, in order. \<open>connections\<close> is the \<open>Map\<close> of the socket manager, in insertion
  order, and \<open>send_calls\<close> the calls of \<open>socket.send\<close> made so far. \<open>faults\<close> is the
  fault schedule: every awaited call to a collaborator (cache, store, queue, router)
  takes the head of the list, and rejects with the error found there, if any; an empty
  schedule means that no further call rejects. \<open>now\<close> is the reading of the clock.
\<close>

record world =
  redis_hashes :: "string \<rightharpoonup> RedisOrderHash"
  redis_strings :: "string \<rightharpoonup> string"
  orders :: "string \<rightharpoonup> OrderRow"
  order_events :: "EventRow list"
  routing_decisions :: "DecisionRow list"
  jobs :: "Job list"
  connections :: "(string \<times> WebSocketConnection) list"
  send_calls :: "SendCall list"
  faults :: "exn option list"
  now :: nat

type_synonym 'a io = "world \<Rightarrow> (exn + 'a) \<times> world"

subsection \<open>Sequencing, exceptions, Promise.all\<close>

definition return :: "'a \<Rightarrow> 'a io" where
  "return a w = (Inr a, w)"

definition throw :: "exn \<Rightarrow> 'a io" where
  "throw e w = (Inl e, w)"

definition andThen :: "'a io \<Rightarrow> ('a \<Rightarrow> 'b io) \<Rightarrow> 'b io" where
  "andThen m k w = (case m w of (Inl e, w') \<Rightarrow> (Inl e, w') | (Inr a, w') \<Rightarrow> k a w')"

definition tryCatch :: "'a io \<Rightarrow> (exn \<Rightarrow> 'a io) \<Rightarrow> 'a io" where
  "tryCatch m handler w = (case m w of (Inl e, w') \<Rightarrow> handler e w' | (Inr a, w') \<Rightarrow> (Inr a, w'))"

text \<open>
  \<open>Promise.all\<close> of two calls: both are started, the first before the second, and both
  run to their end. The result rejects when one of them does; when both do, with the
  rejection that settles first, which \<open>secondRejectsFirst\<close> tells.
\<close>

definition promiseAll2 :: "bool \<Rightarrow> 'a io \<Rightarrow> 'b io \<Rightarrow> ('a \<times> 'b) io" where
  "promiseAll2 secondRejectsFirst m1 m2 w =
     (case m1 w of (r1, w1) \<Rightarrow>
        (case m2 w1 of (r2, w2) \<Rightarrow>
           ((case (r1, r2) of
               (Inr a, Inr b) \<Rightarrow> Inr (a, b)
             | (Inl e1, Inr b) \<Rightarrow> Inl e1
             | (Inr a, Inl e2) \<Rightarrow> Inl e2
             | (Inl e1, Inl e2) \<Rightarrow> Inl (if secondRejectsFirst then e2 else e1)), w2)))"

text \<open>\<open>faultAt w n\<close> is what the schedule holds for the \<open>n\<close>-th call to a collaborator made
  from \<open>w\<close> on (counting from 0), and \<open>popFault\<close> moves the schedule past one call.\<close>

definition faultAt :: "world \<Rightarrow> nat \<Rightarrow> exn option" where
  "faultAt w n = (case drop n (faults w) of [] \<Rightarrow> None | f # fs \<Rightarrow> f)"

definition popFault :: "world \<Rightarrow> world" where
  "popFault w = w\<lparr>faults := tl (faults w)\<rparr>"

definition external :: "'a io \<Rightarrow> 'a io" where
  "external operation w =
     (case faultAt w 0 of
        None \<Rightarrow> operation (popFault w)
      | Some e \<Rightarrow> (Inl e, popFault w))"

subsection \<open>Redis\<close>

text \<open>\<open>HSET key status updatedAt [executionData]\<close>: the fields given are written, the
  other fields of an existing hash stay.\<close>

definition redis_hset :: "string \<Rightarrow> string \<Rightarrow> nat \<Rightarrow> ExecutionData option \<Rightarrow> unit io" where
  "redis_hset key status updatedAt executionData =
     external (\<lambda>w.
       (Inr (),
        w\<lparr>redis_hashes := (redis_hashes w)(key \<mapsto>
            \<lparr> rh_status = status,
              rh_updatedAt = updatedAt,
              rh_executionData =
                (case executionData of
                   Some d \<Rightarrow> Some d
                 | None \<Rightarrow> (case redis_hashes w key of None \<Rightarrow> None | Some h \<Rightarrow> rh_executionData h)) \<rparr>)\<rparr>))"

definition isDigit :: "char \<Rightarrow> bool" where
  "isDigit c = (c \<in> set ''0123456789'')"

definition digitValue :: "char \<Rightarrow> nat" where
  "digitValue c =
     (if c \<in> set ''0123456789'' then of_char c - 48
      else if c \<in> set ''abcdef'' then of_char c - 87
      else if c \<in> set ''ABCDEF'' then of_char c - 55
      else 0)"

definition digitsValue :: "nat \<Rightarrow> string \<Rightarrow> nat" where
  "digitsValue radix cs = foldl (\<lambda>acc c. radix * acc + digitValue c) 0 cs"

text \<open>The integers Redis accepts in \<open>INCR\<close>: the canonical decimal text of a signed 64-bit
  integer (no sign \<open>+\<close>, no leading zero, no blank).\<close>

definition redisInteger :: "string \<Rightarrow> int option" where
  "redisInteger s =
     (let v = (case s of
                 [] \<Rightarrow> None
               | c # cs \<Rightarrow>
                   if c = CHR ''-'' then
                     (if cs \<noteq> [] \<and> list_all isDigit cs \<and> hd cs \<noteq> CHR ''0''
                      then Some (- int (digitsValue 10 cs)) else None)
                   else if list_all isDigit s \<and> (c \<noteq> CHR ''0'' \<or> cs = [])
                     then Some (int (digitsValue 10 s)) else None)
      in case v of
           None \<Rightarrow> None
         | Some i \<Rightarrow> if - (2 ^ 63) \<le> i \<and> i \<le> 2 ^ 63 - 1 then Some i else None)"

definition redis_incr :: "string \<Rightarrow> int io" where
  "redis_incr key =
     external (\<lambda>w.
       case redis_strings w key of
         None \<Rightarrow> (Inr 1, w\<lparr>redis_strings := (redis_strings w)(key \<mapsto> intToString 10 1)\<rparr>)
       | Some s \<Rightarrow>
           (case redisInteger s of
              None \<Rightarrow> (Inl (Error ''ERR value is not an integer or out of range''), w)
            | Some i \<Rightarrow>
                if i = 2 ^ 63 - 1 then (Inl (Error ''ERR increment or decrement would overflow''), w)
                else (Inr (i + 1), w\<lparr>redis_strings := (redis_strings w)(key \<mapsto> intToString 10 (i + 1))\<rparr>)))"

definition redis_get :: "string \<Rightarrow> string option io" where
  "redis_get key = external (\<lambda>w. (Inr (redis_strings w key), w))"

subsection \<open>PostgreSQL\<close>

definition pk_violation :: exn where
  "pk_violation = Error ''duplicate key value violates unique constraint orders_pkey''"

definition fk_violation :: exn where
  "fk_violation = Error ''insert or update on table violates foreign key constraint''"

text \<open>\<open>INSERT INTO orders (id, type, token_in, token_out, amount_in, slippage, status,
  user_id)\<close>: \<open>id\<close> is the primary key; the two timestamps take their default, the current
  time, and \<open>execution_data\<close> is null.\<close>

definition pg_insert_order :: "Order \<Rightarrow> unit io" where
  "pg_insert_order order =
     external (\<lambda>w.
       case orders w (o_id order) of
         Some row \<Rightarrow> (Inl pk_violation, w)
       | None \<Rightarrow>
           (Inr (),
            w\<lparr>orders := (orders w)(o_id order \<mapsto>
                \<lparr> row_type = o_type order,
                  row_token_in = o_tokenIn order,
                  row_token_out = o_tokenOut order,
                  row_amount_in = o_amountIn order,
                  row_slippage = o_slippage order,
                  row_status = o_status order,
                  row_created_at = now w,
                  row_updated_at = now w,
                  row_execution_data = None,
                  row_user_id = o_userId order \<rparr>)\<rparr>))"

text \<open>\<open>UPDATE orders SET status = $1, updated_at = $2, execution_data = $3 WHERE id = $4\<close>:
  no row with this id is no error.\<close>

definition pg_update_order :: "string \<Rightarrow> string \<Rightarrow> nat \<Rightarrow> ExecutionData option \<Rightarrow> unit io" where
  "pg_update_order orderId status updatedAt executionData =
     external (\<lambda>w.
       case orders w orderId of
         None \<Rightarrow> (Inr (), w)
       | Some row \<Rightarrow>
           (Inr (),
            w\<lparr>orders := (orders w)(orderId \<mapsto>
                row\<lparr>row_status := status, row_updated_at := updatedAt,
                    row_execution_data := executionData\<rparr>)\<rparr>))"

text \<open>\<open>UPDATE orders SET status = $1, updated_at = $2 WHERE id = $3\<close>\<close>

definition pg_update_order_status :: "string \<Rightarrow> string \<Rightarrow> nat \<Rightarrow> unit io" where
  "pg_update_order_status orderId status updatedAt =
     external (\<lambda>w.
       case orders w orderId of
         None \<Rightarrow> (Inr (), w)
       | Some row \<Rightarrow>
           (Inr (),
            w\<lparr>orders := (orders w)(orderId \<mapsto>
                row\<lparr>row_status := status, row_updated_at := updatedAt\<rparr>)\<rparr>))"

text \<open>\<open>INSERT INTO order_events (order_id, status, data)\<close>: \<open>order_id\<close> references
  \<open>orders(id)\<close>.\<close>

definition pg_insert_order_event :: "string \<Rightarrow> string \<Rightarrow> EventData option \<Rightarrow> unit io" where
  "pg_insert_order_event orderId status data =
     external (\<lambda>w.
       case orders w orderId of
         None \<Rightarrow> (Inl fk_violation, w)
       | Some row \<Rightarrow>
           (Inr (),
            w\<lparr>order_events := order_events w @
                [\<lparr> ev_order_id = orderId, ev_status = status, ev_data = data,
                   ev_timestamp = now w \<rparr>]\<rparr>))"

definition pg_insert_routing_decision :: "string \<Rightarrow> RoutingDecision \<Rightarrow> unit io" where
  "pg_insert_routing_decision orderId decision =
     external (\<lambda>w.
       case orders w orderId of
         None \<Rightarrow> (Inl fk_violation, w)
       | Some row \<Rightarrow>
           (Inr (),
            w\<lparr>routing_decisions := routing_decisions w @
                [\<lparr> dr_order_id = orderId,
                   dr_selected_dex = rd_dex decision,
                   dr_price = rd_price decision,
                   dr_fee = rd_fee decision,
                   dr_reason = rd_reason decision,
                   dr_alternatives = rd_alternatives decision,
                   dr_timestamp = now w \<rparr>]\<rparr>))"

text \<open>\<open>SELECT * FROM orders WHERE id = $1\<close>\<close>

definition pg_select_order :: "string \<Rightarrow> OrderRow option io" where
  "pg_select_order orderId = external (\<lambda>w. (Inr (orders w orderId), w))"

text \<open>\<open>SELECT * FROM order_events WHERE order_id = $1 ORDER BY timestamp ASC\<close>\<close>

definition pg_select_order_events :: "string \<Rightarrow> EventRow list io" where
  "pg_select_order_events orderId =
     external (\<lambda>w. (Inr (filter (\<lambda>ev. ev_order_id ev = orderId) (order_events w)), w))"

subsection \<open>The job queue\<close>

text \<open>\<open>queue.add(name, data, {jobId, delay})\<close>. The model keeps every job handed over; the
  queue library itself drops a job whose id it already holds, which can only make the
  real queue shorter than this list.\<close>

definition queue_add :: "string \<Rightarrow> Order \<Rightarrow> string \<Rightarrow> nat \<Rightarrow> unit io" where
  "queue_add name data jobId delay =
     external (\<lambda>w.
       (Inr (),
        w\<lparr>jobs := jobs w @
            [\<lparr> job_name = name, job_data = data, job_id = jobId, job_delay = delay \<rparr>]\<rparr>))"


section \<open>services/websocketManager.ts\<close>

text \<open>\<open>Map.set\<close> and \<open>Map.delete\<close> on the insertion-ordered association list: a key that is
  present keeps its place.\<close>

definition connections_set :: "string \<Rightarrow> WebSocketConnection \<Rightarrow> world \<Rightarrow> world" where
  "connections_set orderId connection w =
     w\<lparr>connections :=
         (if orderId \<in> fst ` set (connections w)
          then map (\<lambda>(k, c). if k = orderId then (k, connection) else (k, c)) (connections w)
          else connections w @ [(orderId, connection)])\<rparr>"

definition connections_delete :: "string \<Rightarrow> world \<Rightarrow> world" where
  "connections_delete orderId w =
     w\<lparr>connections := filter (\<lambda>(k, c). k \<noteq> orderId) (connections w)\<rparr>"

text \<open>\<open>connection.socket.socket.send(messageStr)\<close>: the result tells whether the call
  returned.\<close>

definition socket_send :: "string \<Rightarrow> WebSocketConnection \<Rightarrow> wire \<Rightarrow> world \<Rightarrow> bool \<times> world" where
  "socket_send orderId connection payload w =
     (\<not> sock_send_throws (c_socket connection),
      w\<lparr>send_calls := send_calls w @
          [\<lparr> sc_orderId = orderId,
             sc_socket = sock_id (c_socket connection),
             sc_payload = payload,
             sc_delivered = \<not> sock_send_throws (c_socket connection) \<rparr>]\<rparr>)"

definition sendMessage :: "string \<Rightarrow> WebSocketMessage \<Rightarrow> world \<Rightarrow> world" where
  "sendMessage orderId message w =
     (case map_of (connections w) orderId of
        None \<Rightarrow> w
      | Some connection \<Rightarrow>
          (case socket_send orderId connection (OrderMessage message) w of
             (True, w') \<Rightarrow> w'
           | (False, w') \<Rightarrow> connections_delete orderId w'))"

definition emitToOrder :: "string \<Rightarrow> string \<Rightarrow> ExecutionData option \<Rightarrow> world \<Rightarrow> world" where
  "emitToOrder orderId status data w =
     sendMessage orderId
       \<lparr> m_orderId = orderId, m_status = status, m_data = data, m_timestamp = now w \<rparr> w"

definition handleWebSocketConnection :: "string \<Rightarrow> SocketStream \<Rightarrow> world \<Rightarrow> world" where
  "handleWebSocketConnection orderId socket w =
     sendMessage orderId
       \<lparr> m_orderId = orderId, m_status = ''connected'', m_data = None, m_timestamp = now w \<rparr>
       (connections_set orderId
          \<lparr> c_orderId = orderId, c_socket = socket, c_connectedAt = now w \<rparr> w)"

text \<open>\<open>broadcast\<close>: the loop over the entries of the \<open>Map\<close>. Deleting the entry being visited
  does not disturb the iteration, so the loop runs over the entries present at its start.\<close>

fun broadcast_loop :: "BroadcastMessage \<Rightarrow> (string \<times> WebSocketConnection) list \<Rightarrow> world \<Rightarrow> world" where
  "broadcast_loop message [] w = w"
| "broadcast_loop message ((orderId, connection) # rest) w =
     broadcast_loop message rest
       (case socket_send orderId connection (BroadcastPayload message) w of
          (True, w') \<Rightarrow> w'
        | (False, w') \<Rightarrow> connections_delete orderId w')"

definition broadcast :: "BroadcastMessage \<Rightarrow> world \<Rightarrow> world" where
  "broadcast message w = broadcast_loop message (connections w) w"

definition hasConnection :: "string \<Rightarrow> world \<Rightarrow> bool" where
  "hasConnection orderId w = (map_of (connections w) orderId \<noteq> None)"


section \<open>services/orderProcessor.ts\<close>

text \<open>The random draws of the three router calls of one \<open>processOrder\<close>, which of the two
  quote requests settles first when both reject, and the addition of two numbers as the
  machine computes it.\<close>

record ProcessEnv =
  pe_raydium_rnd :: "nat \<Rightarrow> real"
  pe_meteora_rnd :: "nat \<Rightarrow> real"
  pe_swap_rnd :: "nat \<Rightarrow> real"
  pe_meteoraRejectsFirst :: bool
  pe_numberAdd :: "real \<Rightarrow> real \<Rightarrow> real"

text \<open>The router as \<open>processOrder\<close> awaits it: a call to a collaborator, which may reject
  (the tests replace the router by one that does), and otherwise answers as
  services/mockDexRouter.ts does.\<close>

definition dexRouter_getRaydiumQuote :: "ProcessEnv \<Rightarrow> string \<Rightarrow> string \<Rightarrow> real \<Rightarrow> DexQuote io" where
  "dexRouter_getRaydiumQuote env tokenIn tokenOut amount =
     external (\<lambda>w. (Inr (getRaydiumQuote (pe_raydium_rnd env) (now w) tokenIn tokenOut amount), w))"

definition dexRouter_getMeteorQuote :: "ProcessEnv \<Rightarrow> string \<Rightarrow> string \<Rightarrow> real \<Rightarrow> DexQuote io" where
  "dexRouter_getMeteorQuote env tokenIn tokenOut amount =
     external (\<lambda>w. (Inr (getMeteorQuote (pe_meteora_rnd env) (now w) tokenIn tokenOut amount), w))"

definition dexRouter_executeSwap :: "ProcessEnv \<Rightarrow> DexName \<Rightarrow> Order \<Rightarrow> SwapResult io" where
  "dexRouter_executeSwap env dex order =
     external (\<lambda>w. (Inr (executeSwap (pe_swap_rnd env) (now w) dex order), w))"

definition updateOrderStatus :: "string \<Rightarrow> OrderStatus \<Rightarrow> ExecutionData option \<Rightarrow> unit io" where
  "updateOrderStatus orderId status data =
     tryCatch
       (\<lambda>w. andThen (redis_hset (''order:'' @ orderId) (statusString status) (now w) data) (\<lambda>_.
             andThen (pg_update_order orderId (statusString status) (now w) data) (\<lambda>_.
             andThen (pg_insert_order_event orderId (statusString status) (map_option ExecData data)) (\<lambda>_.
             (\<lambda>w'. (Inr (), emitToOrder orderId (statusString status) data w'))))) w)
       (\<lambda>error. throw error)"

definition persistOrder :: "Order \<Rightarrow> unit io" where
  "persistOrder order = pg_insert_order order"

definition persistRoutingDecision :: "string \<Rightarrow> RoutingDecision \<Rightarrow> unit io" where
  "persistRoutingDecision orderId decision = pg_insert_routing_decision orderId decision"

definition updateMetrics :: "string \<Rightarrow> bool \<Rightarrow> unit io" where
  "updateMetrics dex success =
     andThen (redis_incr ''stats:total_orders'') (\<lambda>_.
       if success then
         andThen (redis_incr ''stats:successful_orders'') (\<lambda>_.
           if dex \<noteq> [] then
             andThen (redis_incr (''stats:'' @ dex @ ''_routed'')) (\<lambda>_. return ())
           else return ())
       else
         andThen (redis_incr ''stats:failed_orders'') (\<lambda>_. return ()))"

definition submitOrder :: "Order \<Rightarrow> unit io" where
  "submitOrder order =
     tryCatch
       (andThen (persistOrder order) (\<lambda>_.
        andThen (queue_add ''execute-order'' order (o_id order) 0) (\<lambda>_.
        andThen (updateOrderStatus (o_id order) Pending None) (\<lambda>_.
        return ()))))
       (\<lambda>error. throw error)"

text \<open>The \<open>try\<close> block of \<open>processOrder\<close>.\<close>

definition processOrder_try :: "ProcessEnv \<Rightarrow> Order \<Rightarrow> ExecutionData io" where
  "processOrder_try env order =
     andThen (updateOrderStatus (o_id order) Routing None) (\<lambda>_.
     andThen (promiseAll2 (pe_meteoraRejectsFirst env)
                (dexRouter_getRaydiumQuote env (o_tokenIn order) (o_tokenOut order) (o_amountIn order))
                (dexRouter_getMeteorQuote env (o_tokenIn order) (o_tokenOut order) (o_amountIn order)))
       (\<lambda>(raydiumQuote, meteoraQuote).
     let routingDecision =
           selectBestDex (pe_numberAdd env) raydiumQuote meteoraQuote (o_amountIn order) in
     andThen (persistRoutingDecision (o_id order) routingDecision) (\<lambda>_.
     andThen (updateOrderStatus (o_id order) Building None) (\<lambda>_.
     andThen (updateOrderStatus (o_id order) Submitted None) (\<lambda>_.
     andThen (dexRouter_executeSwap env (rd_dex routingDecision) order) (\<lambda>result.
     let executionData =
           \<lparr> ed_txHash = Some (sr_txHash result),
             ed_executedPrice = Some (sr_executedPrice result),
             ed_dex = Some (dexString (rd_dex routingDecision)),
             ed_gasUsed = Some (sr_gasUsed result),
             ed_error = None \<rparr> in
     andThen (updateOrderStatus (o_id order) Confirmed (Some executionData)) (\<lambda>_.
     andThen (updateMetrics (dexString (rd_dex routingDecision)) True) (\<lambda>_.
     return executionData))))))))"

fun errorMessage :: "exn \<Rightarrow> string" where
  "errorMessage (Error message) = message"
| "errorMessage NonError = ''Unknown error''"

definition errorData :: "exn \<Rightarrow> ExecutionData" where
  "errorData error =
     \<lparr> ed_txHash = None, ed_executedPrice = None, ed_dex = None, ed_gasUsed = None,
       ed_error = Some (errorMessage error) \<rparr>"

definition processOrder :: "ProcessEnv \<Rightarrow> Order \<Rightarrow> ExecutionData io" where
  "processOrder env order =
     tryCatch (processOrder_try env order)
       (\<lambda>error.
          andThen (updateOrderStatus (o_id order) Failed (Some (errorData error))) (\<lambda>_.
          andThen (updateMetrics [] False) (\<lambda>_.
          throw error)))"

subsection \<open>getMetrics\<close>

text \<open>
  The values \<open>parseInt\<close> and the arithmetic on them can produce. \<open>parseInt\<close> on a string of
  ASCII characters: leading blanks are skipped, then a sign, then \<open>0x\<close> or \<open>0X\<close> selects
  radix 16, then the longest run of digits of the radix is read; no digit gives \<open>NaN\<close>.
\<close>

datatype jsnum = NaN | PosInfinity | NegInfinity | Num real

definition isWhiteSpace :: "char \<Rightarrow> bool" where
  "isWhiteSpace c = (of_char c \<in> {9, 10, 11, 12, 13, 32 :: nat})"

definition isRadixDigit :: "nat \<Rightarrow> char \<Rightarrow> bool" where
  "isRadixDigit radix c =
     (if radix = 16 then c \<in> set ''0123456789abcdefABCDEF'' else c \<in> set ''0123456789'')"

definition parseInt :: "string \<Rightarrow> jsnum" where
  "parseInt string =
     (let s1 = dropWhile isWhiteSpace string;
          (sign, s2) = (case s1 of
                          c # rest \<Rightarrow> if c = CHR ''-'' then (- 1 :: int, rest)
                                      else if c = CHR ''+'' then (1, rest) else (1, s1)
                        | [] \<Rightarrow> (1, s1));
          (radix, s3) = (if take 2 s2 = ''0x'' \<or> take 2 s2 = ''0X'' then (16 :: nat, drop 2 s2)
                         else (10, s2));
          ds = takeWhile (isRadixDigit radix) s3
      in if ds = [] then NaN else Num (of_int (sign * int (digitsValue radix ds))))"

fun jsGreater :: "jsnum \<Rightarrow> jsnum \<Rightarrow> bool" where
  "jsGreater (Num a) (Num b) = (a > b)"
| "jsGreater PosInfinity (Num b) = True"
| "jsGreater PosInfinity NegInfinity = True"
| "jsGreater (Num a) NegInfinity = True"
| "jsGreater _ _ = False"

fun jsDivide :: "jsnum \<Rightarrow> jsnum \<Rightarrow> jsnum" where
  "jsDivide (Num a) (Num b) =
     (if b = 0 then (if a = 0 then NaN else if a > 0 then PosInfinity else NegInfinity)
      else Num (a / b))"
| "jsDivide (Num a) PosInfinity = Num 0"
| "jsDivide (Num a) NegInfinity = Num 0"
| "jsDivide PosInfinity (Num b) = (if b < 0 then NegInfinity else PosInfinity)"
| "jsDivide NegInfinity (Num b) = (if b < 0 then PosInfinity else NegInfinity)"
| "jsDivide _ _ = NaN"

fun jsTimes :: "jsnum \<Rightarrow> jsnum \<Rightarrow> jsnum" where
  "jsTimes (Num a) (Num b) = Num (a * b)"
| "jsTimes PosInfinity (Num b) = (if b = 0 then NaN else if b > 0 then PosInfinity else NegInfinity)"
| "jsTimes NegInfinity (Num b) = (if b = 0 then NaN else if b > 0 then NegInfinity else PosInfinity)"
| "jsTimes (Num a) PosInfinity = (if a = 0 then NaN else if a > 0 then PosInfinity else NegInfinity)"
| "jsTimes (Num a) NegInfinity = (if a = 0 then NaN else if a > 0 then NegInfinity else PosInfinity)"
| "jsTimes PosInfinity PosInfinity = PosInfinity"
| "jsTimes NegInfinity NegInfinity = PosInfinity"
| "jsTimes PosInfinity NegInfinity = NegInfinity"
| "jsTimes NegInfinity PosInfinity = NegInfinity"
| "jsTimes _ _ = NaN"

record Metrics =
  mt_totalOrders :: jsnum
  mt_successfulOrders :: jsnum
  mt_failedOrders :: jsnum
  mt_raydiumRouted :: jsnum
  mt_meteoraRouted :: jsnum
  mt_successRate :: jsnum

text \<open>\<open>value || '0'\<close>: \<open>null\<close> and the empty string are falsy.\<close>

definition orZero :: "string option \<Rightarrow> string" where
  "orZero value = (case value of None \<Rightarrow> ''0'' | Some s \<Rightarrow> if s = [] then ''0'' else s)"

definition getMetrics :: "Metrics io" where
  "getMetrics =
     andThen
       (promiseAll2 False (redis_get ''stats:total_orders'')
       (promiseAll2 False (redis_get ''stats:successful_orders'')
       (promiseAll2 False (redis_get ''stats:failed_orders'')
       (promiseAll2 False (redis_get ''stats:raydium_routed'')
                          (redis_get ''stats:meteora_routed'')))))
       (\<lambda>(total, successful, failed, raydium, meteora).
          let totalOrders = parseInt (orZero total);
              successfulOrders = parseInt (orZero successful)
          in return
               \<lparr> mt_totalOrders = totalOrders,
                 mt_successfulOrders = successfulOrders,
                 mt_failedOrders = parseInt (orZero failed),
                 mt_raydiumRouted = parseInt (orZero raydium),
                 mt_meteoraRouted = parseInt (orZero meteora),
                 mt_successRate =
                   (if jsGreater totalOrders (Num 0)
                    then jsTimes (jsDivide successfulOrders totalOrders) (Num 100)
                    else Num 0) \<rparr>)"

subsection \<open>getOrder and getOrderEvents\<close>

definition getOrder :: "string \<Rightarrow> Order option io" where
  "getOrder orderId =
     tryCatch
       (andThen (pg_select_order orderId) (\<lambda>result.
          case result of
            None \<Rightarrow> return None
          | Some row \<Rightarrow>
              return (Some
                \<lparr> o_id = orderId,
                  o_type = row_type row,
                  o_tokenIn = row_token_in row,
                  o_tokenOut = row_token_out row,
                  o_amountIn = row_amount_in row,
                  o_slippage = row_slippage row,
                  o_status = row_status row,
                  o_createdAt = row_created_at row,
                  o_updatedAt = Some (row_updated_at row),
                  o_executionData = row_execution_data row,
                  o_userId = row_user_id row \<rparr>)))
       (\<lambda>error. throw error)"

definition getOrderEvents :: "string \<Rightarrow> EventRow list io" where
  "getOrderEvents orderId = pg_select_order_events orderId"


section \<open>routes/orders.ts: DELETE /api/orders/:orderId\<close>

text \<open>
  The params schema of the route asks for an \<open>orderId\<close> of format \<open>uuid\<close>: an optional prefix
  \<open>urn:uuid:\<close>, then 8, 4, 4, 4 and 12 hexadecimal digits separated by hyphens, letters in
  either case.
\<close>

definition isHexDigit :: "char \<Rightarrow> bool" where
  "isHexDigit c = (c \<in> set ''0123456789abcdefABCDEF'')"

definition isUuidBody :: "string \<Rightarrow> bool" where
  "isUuidBody s =
     (length s = 36
      \<and> list_all isHexDigit (take 8 s) \<and> take 1 (drop 8 s) = ''-''
      \<and> list_all isHexDigit (take 4 (drop 9 s)) \<and> take 1 (drop 13 s) = ''-''
      \<and> list_all isHexDigit (take 4 (drop 14 s)) \<and> take 1 (drop 18 s) = ''-''
      \<and> list_all isHexDigit (take 4 (drop 19 s)) \<and> take 1 (drop 23 s) = ''-''
      \<and> list_all isHexDigit (drop 24 s))"

definition isUuid :: "string \<Rightarrow> bool" where
  "isUuid s =
     (isUuidBody s
      \<or> (list_all2 (\<lambda>c (lower, upper). c = lower \<or> c = upper) (take 9 s)
             (zip ''urn:uuid:'' ''URN:UUID:'')
         \<and> isUuidBody (drop 9 s)))"

datatype ReplyBody =
    ErrorReply string string
  | CancelledReply string string
  | ServerErrorReply string "string option" nat

record Reply =
  rp_status :: nat
  rp_body :: ReplyBody

text \<open>
  The error handler that server.ts sets with \<open>setErrorHandler\<close>: status 500, and the message
  of the error only when \<open>NODE_ENV\<close> is \<open>development\<close>. The framework hands it the validation
  error of a request that fails the schema of its route (the text of that error is the
  validator's).
\<close>

definition globalErrorHandler :: "bool \<Rightarrow> exn \<Rightarrow> world \<Rightarrow> Reply" where
  "globalErrorHandler development error w =
     \<lparr> rp_status = 500,
       rp_body = ServerErrorReply ''Internal Server Error''
                   (if development
                    then (case error of Error message \<Rightarrow> Some message | NonError \<Rightarrow> None)
                    else Some ''Something went wrong'')
                   (now w) \<rparr>"

definition validationError :: exn where
  "validationError =
     Error (''params/orderId must match format '' @ [CHR 0x22] @ ''uuid'' @ [CHR 0x22])"

text \<open>The handler of the route.\<close>

definition cancelHandler :: "string \<Rightarrow> world \<Rightarrow> Reply \<times> world" where
  "cancelHandler orderId w =
     (case
        andThen (getOrder orderId) (\<lambda>order.
          case order of
            None \<Rightarrow>
              return \<lparr> rp_status = 404,
                       rp_body = ErrorReply ''Order not found''
                         (''Order with ID '' @ orderId @ '' does not exist'') \<rparr>
          | Some order \<Rightarrow>
              if o_status order \<noteq> ''pending'' then
                return \<lparr> rp_status = 400,
                         rp_body = ErrorReply ''Cannot cancel order''
                           (''Order is in '' @ o_status order @ '' status and cannot be cancelled'') \<rparr>
              else
                (\<lambda>w'. andThen (pg_update_order_status orderId ''cancelled'' (now w')) (\<lambda>_.
                       andThen (pg_insert_order_event orderId ''cancelled''
                                  (Some (CancelReason ''User cancelled''))) (\<lambda>_.
                       return \<lparr> rp_status = 200,
                                rp_body = CancelledReply ''Order cancelled successfully'' orderId \<rparr>)) w')) w
      of
        (Inr reply, w') \<Rightarrow> (reply, w')
      | (Inl error, w') \<Rightarrow>
          (\<lparr> rp_status = 500,
             rp_body = ErrorReply ''Internal Server Error'' ''Failed to cancel order'' \<rparr>, w'))"

text \<open>The route: a request whose id fails the schema does not reach the handler.\<close>

definition cancelOrder :: "bool \<Rightarrow> string \<Rightarrow> world \<Rightarrow> Reply \<times> world" where
  "cancelOrder development orderId w =
     (if isUuid orderId then cancelHandler orderId w
      else (globalErrorHandler development validationError w, w))"


section \<open>Notions used in the statements\<close>

text \<open>The four effects of a transition, as the state \<open>w\<close> in which it starts determines them:
  the cache entry written, the row as updated, the event appended, and the calls of
  \<open>socket.send\<close> made (one if a subscriber is registered for the order, none otherwise).\<close>

definition cachedEntry :: "string \<Rightarrow> OrderStatus \<Rightarrow> ExecutionData option \<Rightarrow> world \<Rightarrow> RedisOrderHash" where
  "cachedEntry orderId status data w =
     \<lparr> rh_status = statusString status,
       rh_updatedAt = now w,
       rh_executionData =
         (case data of
            Some d \<Rightarrow> Some d
          | None \<Rightarrow> (case redis_hashes w (''order:'' @ orderId) of
                       None \<Rightarrow> None | Some h \<Rightarrow> rh_executionData h)) \<rparr>"

definition updatedRow :: "OrderStatus \<Rightarrow> ExecutionData option \<Rightarrow> world \<Rightarrow> OrderRow \<Rightarrow> OrderRow" where
  "updatedRow status data w row =
     row\<lparr>row_status := statusString status, row_updated_at := now w, row_execution_data := data\<rparr>"

definition statusEvent :: "string \<Rightarrow> OrderStatus \<Rightarrow> ExecutionData option \<Rightarrow> world \<Rightarrow> EventRow" where
  "statusEvent orderId status data w =
     \<lparr> ev_order_id = orderId, ev_status = statusString status,
       ev_data = map_option ExecData data, ev_timestamp = now w \<rparr>"

definition statusCalls :: "string \<Rightarrow> OrderStatus \<Rightarrow> ExecutionData option \<Rightarrow> world \<Rightarrow> SendCall list" where
  "statusCalls orderId status data w =
     (case map_of (connections w) orderId of
        None \<Rightarrow> []
      | Some connection \<Rightarrow>
          [\<lparr> sc_orderId = orderId,
             sc_socket = sock_id (c_socket connection),
             sc_payload = OrderMessage \<lparr> m_orderId = orderId, m_status = statusString status,
                                         m_data = data, m_timestamp = now w \<rparr>,
             sc_delivered = \<not> sock_send_throws (c_socket connection) \<rparr>])"

text \<open>The statuses from which the specification allows no further transition.\<close>

definition isTerminal :: "string \<Rightarrow> bool" where
  "isTerminal status = (status \<in> {''confirmed'', ''failed'', ''cancelled''})"

text \<open>The call of \<open>socket.send\<close> that \<open>broadcast\<close> makes for one entry of the map.\<close>

definition broadcastCall :: "BroadcastMessage \<Rightarrow> string \<times> WebSocketConnection \<Rightarrow> SendCall" where
  "broadcastCall message entry =
     \<lparr> sc_orderId = fst entry,
       sc_socket = sock_id (c_socket (snd entry)),
       sc_payload = BroadcastPayload message,
       sc_delivered = \<not> sock_send_throws (c_socket (snd entry)) \<rparr>"

text \<open>The integer a counter key of the cache stands for: 0 when the key is absent, and none
  when its text is not an integer.\<close>

definition counter :: "world \<Rightarrow> string \<Rightarrow> int option" where
  "counter w key = (case redis_strings w key of None \<Rightarrow> Some 0 | Some s \<Rightarrow> redisInteger s)"

text \<open>The jobs handed to the queue have distinct ids, and each is the id of a stored order.\<close>

definition queueInvariant :: "world \<Rightarrow> bool" where
  "queueInvariant w = (distinct (map job_id (jobs w)) \<and> job_id ` set (jobs w) \<subseteq> dom (orders w))"

text \<open>The job \<open>submitOrder\<close> hands to the queue.\<close>

definition submittedJob :: "Order \<Rightarrow> Job" where
  "submittedJob order =
     \<lparr> job_name = ''execute-order'', job_data = order, job_id = o_id order, job_delay = 0 \<rparr>"

text \<open>The jobs and the set of stored order ids are touched by \<open>submitOrder\<close> only.\<close>

definition queueView :: "world \<Rightarrow> Job list \<times> string set" where
  "queueView w = (jobs w, dom (orders w))"

text \<open>The replies of the route that cancels an order, and the event it logs.\<close>

definition notFoundReply :: "string \<Rightarrow> Reply" where
  "notFoundReply orderId =
     \<lparr> rp_status = 404,
       rp_body = ErrorReply ''Order not found'' (''Order with ID '' @ orderId @ '' does not exist'') \<rparr>"

definition conflictReply :: "string \<Rightarrow> Reply" where
  "conflictReply status =
     \<lparr> rp_status = 400,
       rp_body = ErrorReply ''Cannot cancel order''
                   (''Order is in '' @ status @ '' status and cannot be cancelled'') \<rparr>"

definition cancelledReply :: "string \<Rightarrow> Reply" where
  "cancelledReply orderId =
     \<lparr> rp_status = 200, rp_body = CancelledReply ''Order cancelled successfully'' orderId \<rparr>"

definition serverErrorReply :: Reply where
  "serverErrorReply =
     \<lparr> rp_status = 500, rp_body = ErrorReply ''Internal Server Error'' ''Failed to cancel order'' \<rparr>"

definition cancelledEvent :: "string \<Rightarrow> world \<Rightarrow> EventRow" where
  "cancelledEvent orderId w =
     \<lparr> ev_order_id = orderId, ev_status = ''cancelled'',
       ev_data = Some (CancelReason ''User cancelled''), ev_timestamp = now w \<rparr>"


section \<open>Example data\<close>

text \<open>The order and the quotes the unit tests of the repository use.\<close>

definition mockOrder :: Order where
  "mockOrder =
     \<lparr> o_id = ''test-order-123'', o_type = Market, o_tokenIn = ''SOL'', o_tokenOut = ''USDC'',
       o_amountIn = 1.5, o_slippage = 0.01, o_status = ''pending'', o_createdAt = 0,
       o_updatedAt = None, o_executionData = None, o_userId = Some ''user123'' \<rparr>"

definition testRaydiumQuote :: DexQuote where
  "testRaydiumQuote =
     \<lparr> q_dex = Raydium, q_price = 100, q_fee = 0.0025, q_liquidity = 1000000,
       q_estimatedGas = 0.0001, q_timestamp = 0, q_amountOut = 99.75, q_priceImpact = 0.001 \<rparr>"

definition testMeteoraQuote :: DexQuote where
  "testMeteoraQuote =
     \<lparr> q_dex = Meteora, q_price = 99, q_fee = 0.002, q_liquidity = 800000,
       q_estimatedGas = 0.00008, q_timestamp = 0, q_amountOut = 98.802, q_priceImpact = 0.0008 \<rparr>"

text \<open>An addition that rounds as binary64 addition does where the exact sum is \<open>2^53 + 1\<close>
  (to \<open>2^53\<close>, the even neighbour) and is exact elsewhere, and two quotes whose exact total
  costs are \<open>2^53 + 1\<close> and \<open>2^53\<close>.\<close>

definition roundingPlus :: "real \<Rightarrow> real \<Rightarrow> real" where
  "roundingPlus a b = (if a + b = 2 ^ 53 + 1 then 2 ^ 53 else a + b)"

definition largeRaydiumQuote :: DexQuote where
  "largeRaydiumQuote =
     \<lparr> q_dex = Raydium, q_price = 100, q_fee = 0.0025, q_liquidity = 1200000,
       q_estimatedGas = 1, q_timestamp = 0, q_amountOut = 2 ^ 53, q_priceImpact = 0.001 \<rparr>"

definition largeMeteoraQuote :: DexQuote where
  "largeMeteoraQuote =
     \<lparr> q_dex = Meteora, q_price = 100, q_fee = 0.002, q_liquidity = 800000,
       q_estimatedGas = 0, q_timestamp = 0, q_amountOut = 2 ^ 53, q_priceImpact = 0.0008 \<rparr>"

text \<open>The state before anything has happened.\<close>

definition emptyWorld :: world where
  "emptyWorld =
     \<lparr> redis_hashes = Map.empty, redis_strings = Map.empty, orders = Map.empty,
       order_events = [], routing_decisions = [], jobs = [], connections = [],
       send_calls = [], faults = [], now = 0 \<rparr>"

definition brokenSocket :: SocketStream where
  "brokenSocket = \<lparr> sock_id = 1, sock_send_throws = True \<rparr>"

definition liveSocket :: SocketStream where
  "liveSocket = \<lparr> sock_id = 2, sock_send_throws = False \<rparr>"

text \<open>Two subscribers: the socket of order \<open>a\<close> throws on \<open>send\<close>, the socket of order \<open>b\<close>
  does not.\<close>

definition fanoutWorld :: world where
  "fanoutWorld =
     emptyWorld\<lparr>connections :=
       [(''a'', \<lparr> c_orderId = ''a'', c_socket = brokenSocket, c_connectedAt = 0 \<rparr>),
        (''b'', \<lparr> c_orderId = ''b'', c_socket = liveSocket, c_connectedAt = 0 \<rparr>)]\<rparr>"

definition testMessage :: "string \<Rightarrow> WebSocketMessage" where
  "testMessage orderId = \<lparr> m_orderId = orderId, m_status = ''routing'', m_data = None, m_timestamp = 0 \<rparr>"

definition testBroadcast :: BroadcastMessage where
  "testBroadcast = \<lparr> b_status = ''shutdown'', b_data = None, b_timestamp = 0 \<rparr>"

text \<open>The row of \<open>mockOrder\<close> in the table \<open>orders\<close>, and the state in which this row, with a
  given status and execution data, is the only thing stored and the fault schedule is
  \<open>fs\<close>.\<close>

definition mockRow :: OrderRow where
  "mockRow =
     \<lparr> row_type = Market, row_token_in = ''SOL'', row_token_out = ''USDC'',
       row_amount_in = 1.5, row_slippage = 0.01, row_status = ''pending'',
       row_created_at = 0, row_updated_at = 0, row_execution_data = None,
       row_user_id = Some ''user123'' \<rparr>"

definition storedWorld :: "string \<Rightarrow> ExecutionData option \<Rightarrow> exn option list \<Rightarrow> world" where
  "storedWorld status data fs =
     emptyWorld\<lparr>orders := [''test-order-123'' \<mapsto>
                    mockRow\<lparr>row_status := status, row_execution_data := data\<rparr>],
                faults := fs\<rparr>"

definition confirmedData :: ExecutionData where
  "confirmedData =
     \<lparr> ed_txHash = Some ''0x1234567890abcdef'', ed_executedPrice = Some 99.5,
       ed_dex = Some ''meteora'', ed_gasUsed = Some 0.00008, ed_error = None \<rparr>"

text \<open>An order id of format \<open>uuid\<close>, the state in which the row of \<open>mockOrder\<close> is stored under
  this id with a given status, and a fault schedule in which the lookup and the
  \<open>UPDATE\<close> of a cancellation succeed and the \<open>INSERT\<close> of its event rejects.\<close>

definition uuidOrderId :: string where
  "uuidOrderId = ''123e4567-e89b-12d3-a456-426614174000''"

definition uuidWorld :: "string \<Rightarrow> exn option list \<Rightarrow> world" where
  "uuidWorld status fs =
     emptyWorld\<lparr>orders := [uuidOrderId \<mapsto> mockRow\<lparr>row_status := status\<rparr>], faults := fs\<rparr>"

definition eventInsertFault :: "exn option list" where
  "eventInsertFault = [None, None, Some (Error ''database down'')]"

text \<open>A run in which every random draw is one half and the sums are exact.\<close>

definition mockEnv :: ProcessEnv where
  "mockEnv =
     \<lparr> pe_raydium_rnd = (\<lambda>i. 1 / 2), pe_meteora_rnd = (\<lambda>i. 1 / 2), pe_swap_rnd = (\<lambda>i. 1 / 2),
       pe_meteoraRejectsFirst = False, pe_numberAdd = (+) \<rparr>"

text \<open>Two fault schedules for \<open>processOrder\<close>. In both, the three store calls of the transition
  to \<open>routing\<close> succeed and the quote request to Raydium rejects. In the second, the
  \<open>UPDATE\<close> of the transition to \<open>failed\<close> rejects as well.\<close>

definition quoteFault :: "exn option list" where
  "quoteFault = [None, None, None, Some (Error ''quote timeout'')]"

definition quoteThenStoreFault :: "exn option list" where
  "quoteThenStoreFault =
     [None, None, None, Some (Error ''quote timeout''), None, None, Some (Error ''database down'')]"

text \<open>A cache in which 100 orders are counted, 90 of them successful, as in the unit test,
  and one whose total is no number.\<close>

definition countedWorld :: world where
  "countedWorld =
     emptyWorld\<lparr>redis_strings :=
       [''stats:total_orders'' \<mapsto> ''100'', ''stats:successful_orders'' \<mapsto> ''90'',
        ''stats:failed_orders'' \<mapsto> ''10'', ''stats:raydium_routed'' \<mapsto> ''60'',
        ''stats:meteora_routed'' \<mapsto> ''30'']\<rparr>"

definition garbledWorld :: world where
  "garbledWorld =
     emptyWorld\<lparr>redis_strings :=
       [''stats:total_orders'' \<mapsto> ''many'', ''stats:successful_orders'' \<mapsto> ''90'']\<rparr>"

text \<open>A fault schedule for \<open>processOrder\<close> in which the first seventeen calls succeed and the
  eighteenth, the increment of the counter of successful orders, rejects.\<close>

definition metricsFault :: "exn option list" where
  "metricsFault = replicate 17 None @ [Some (Error ''redis down'')]"


section \<open>Calls to the collaborators\<close>

lemma faultAt_popFault: "faultAt (popFault w) n = faultAt w (Suc n)"
  by (simp add: faultAt_def popFault_def drop_Suc)

lemma faultAt_update:
  "faultAt (w\<lparr>redis_hashes := a\<rparr>) n = faultAt w n"
  "faultAt (w\<lparr>redis_strings := b\<rparr>) n = faultAt w n"
  "faultAt (w\<lparr>orders := c\<rparr>) n = faultAt w n"
  "faultAt (w\<lparr>order_events := d\<rparr>) n = faultAt w n"
  "faultAt (w\<lparr>routing_decisions := e\<rparr>) n = faultAt w n"
  "faultAt (w\<lparr>jobs := f\<rparr>) n = faultAt w n"
  "faultAt (w\<lparr>connections := g\<rparr>) n = faultAt w n"
  "faultAt (w\<lparr>send_calls := h\<rparr>) n = faultAt w n"
  "faultAt (w\<lparr>now := i\<rparr>) n = faultAt w n"
  by (simp_all add: faultAt_def)

lemma popFault_fields:
  "redis_hashes (popFault w) = redis_hashes w"
  "redis_strings (popFault w) = redis_strings w"
  "orders (popFault w) = orders w"
  "order_events (popFault w) = order_events w"
  "routing_decisions (popFault w) = routing_decisions w"
  "jobs (popFault w) = jobs w"
  "connections (popFault w) = connections w"
  "send_calls (popFault w) = send_calls w"
  "now (popFault w) = now w"
  by (simp_all add: popFault_def)

lemmas fault_simps = faultAt_popFault faultAt_update popFault_fields
lemmas io_defs = return_def throw_def andThen_def tryCatch_def external_def
lemmas transition_defs = updateOrderStatus_def redis_hset_def pg_update_order_def
  pg_insert_order_event_def emitToOrder_def sendMessage_def socket_send_def connections_delete_def
lemmas effect_defs = cachedEntry_def updatedRow_def statusEvent_def statusCalls_def
lemmas process_defs = processOrder_def processOrder_try_def promiseAll2_def
  dexRouter_getRaydiumQuote_def dexRouter_getMeteorQuote_def dexRouter_executeSwap_def
  persistRoutingDecision_def pg_insert_routing_decision_def updateMetrics_def redis_incr_def
  errorData_def
lemmas router_defs = getRaydiumQuote_def getMeteorQuote_def selectBestDex_def executeSwap_def
  basePrice_def
lemmas example_defs = storedWorld_def emptyWorld_def mockRow_def mockOrder_def mockEnv_def
lemmas eval_defs = process_defs transition_defs io_defs example_defs router_defs
  faultAt_def popFault_def Let_def quoteFault_def quoteThenStoreFault_def

text \<open>What a sequence of calls leaves unchanged.\<close>

lemma andThen_frame:
  assumes "\<And>w. f (snd (m w)) = f w" and "\<And>a w. f (snd (k a w)) = f w"
  shows "f (snd (andThen m k w)) = f w"
proof (cases "m w")
  case (Pair r w')
  then have w': "w' = snd (m w)" by simp
  show ?thesis
  proof (cases r)
    case (Inl e)
    then show ?thesis using Pair assms(1) [of w] by (simp add: andThen_def)
  next
    case (Inr a)
    then show ?thesis using Pair assms(1) [of w] assms(2) [of a w'] by (simp add: andThen_def)
  qed
qed

lemma return_frame: "f (snd (return a w)) = f w"
  by (simp add: return_def)

lemma throw_frame: "f (snd (throw e w)) = f w"
  by (simp add: throw_def)

lemma tryCatch_frame:
  assumes "\<And>w. f (snd (m w)) = f w" and "\<And>e w. f (snd (h e w)) = f w"
  shows "f (snd (tryCatch m h w)) = f w"
proof (cases "m w")
  case (Pair r w')
  show ?thesis
  proof (cases r)
    case (Inl e)
    then show ?thesis using Pair assms(1) [of w] assms(2) [of e w'] by (simp add: tryCatch_def)
  next
    case (Inr a)
    then show ?thesis using Pair assms(1) [of w] by (simp add: tryCatch_def)
  qed
qed

lemma promiseAll2_frame:
  assumes "\<And>w. f (snd (m1 w)) = f w" and "\<And>w. f (snd (m2 w)) = f w"
  shows "f (snd (promiseAll2 b m1 m2 w)) = f w"
proof (cases "m1 w")
  case p1: (Pair r1 w1)
  show ?thesis
  proof (cases "m2 w1")
    case p2: (Pair r2 w2)
    show ?thesis
      using p1 p2 assms(1) [of w] assms(2) [of w1] by (simp add: promiseAll2_def)
  qed
qed

lemma distinct_filter_le_1:
  assumes "distinct xs"
  shows "length (filter (\<lambda>k. k = a) xs) \<le> Suc 0"
  using assms
proof (induction xs)
  case Nil
  then show ?case by simp
next
  case (Cons x xs)
  show ?case
  proof (cases "x = a")
    case True
    with Cons.prems have "a \<notin> set xs" by simp
    then have "filter (\<lambda>k. k = a) xs = []" by (auto simp: filter_empty_conv)
    with True show ?thesis by simp
  next
    case False
    with Cons show ?thesis by simp
  qed
qed


section \<open>Properties of the router\<close>

text \<open>
  Claim C2. \<open>selectBestDex\<close> is a function of its two quotes (and of the machine's
  addition). The total cost of a quote is the sum, as computed, of its \<open>amountOut\<close> and
  its \<open>estimatedGas\<close>. The function selects the venue whose total cost is strictly
  lower; when the two total costs are equal it selects the venue with the strictly
  higher liquidity; when the liquidities are equal as well it selects Meteora. The
  price, fee and gas of the decision are those of the selected quote, and \<open>alternatives\<close>
  holds both input quotes, Raydium's first, whichever venue was selected.
\<close>

theorem selectBestDex_policy:
  "rd_dex (selectBestDex numberAdd raydiumQuote meteoraQuote amount) =
     (if numberAdd (q_amountOut meteoraQuote) (q_estimatedGas meteoraQuote)
           < numberAdd (q_amountOut raydiumQuote) (q_estimatedGas raydiumQuote) then Meteora
      else if numberAdd (q_amountOut raydiumQuote) (q_estimatedGas raydiumQuote)
           < numberAdd (q_amountOut meteoraQuote) (q_estimatedGas meteoraQuote) then Raydium
      else if q_liquidity meteoraQuote < q_liquidity raydiumQuote then Raydium
      else Meteora)
   \<and> rd_alternatives (selectBestDex numberAdd raydiumQuote meteoraQuote amount) =
       [raydiumQuote, meteoraQuote]
   \<and> rd_price (selectBestDex numberAdd raydiumQuote meteoraQuote amount) =
       q_price (if rd_dex (selectBestDex numberAdd raydiumQuote meteoraQuote amount) = Raydium
                then raydiumQuote else meteoraQuote)
   \<and> rd_fee (selectBestDex numberAdd raydiumQuote meteoraQuote amount) =
       q_fee (if rd_dex (selectBestDex numberAdd raydiumQuote meteoraQuote amount) = Raydium
              then raydiumQuote else meteoraQuote)
   \<and> rd_estimatedGas (selectBestDex numberAdd raydiumQuote meteoraQuote amount) =
       q_estimatedGas (if rd_dex (selectBestDex numberAdd raydiumQuote meteoraQuote amount) = Raydium
                       then raydiumQuote else meteoraQuote)"
  by (simp add: selectBestDex_def Let_def)

text \<open>With exact sums, the quotes of the unit test have the total costs 99.7501 and
  98.80208 and Meteora is selected; equal costs and equal liquidity give Meteora; equal
  costs with liquidity 1200000 against 800000 give Raydium. With the rounding addition,
  the two large quotes have the same computed total cost \<open>2^53\<close> and the liquidity
  decides for Raydium, where the exact sums would have decided for Meteora.\<close>

theorem selectBestDex_policy_witness:
  "rd_dex (selectBestDex (+) testRaydiumQuote testMeteoraQuote 1) = Meteora
   \<and> rd_alternatives (selectBestDex (+) testRaydiumQuote testMeteoraQuote 1) =
       [testRaydiumQuote, testMeteoraQuote]
   \<and> rd_dex (selectBestDex (+) testRaydiumQuote (testRaydiumQuote\<lparr>q_liquidity := 1000000\<rparr>) 1)
       = Meteora
   \<and> rd_dex (selectBestDex (+) (testRaydiumQuote\<lparr>q_liquidity := 1200000\<rparr>)
               (testRaydiumQuote\<lparr>q_liquidity := 800000\<rparr>) 1) = Raydium
   \<and> roundingPlus (q_amountOut largeRaydiumQuote) (q_estimatedGas largeRaydiumQuote) = 2 ^ 53
   \<and> roundingPlus (q_amountOut largeMeteoraQuote) (q_estimatedGas largeMeteoraQuote) = 2 ^ 53
   \<and> rd_dex (selectBestDex roundingPlus largeRaydiumQuote largeMeteoraQuote 1) = Raydium
   \<and> rd_dex (selectBestDex (+) largeRaydiumQuote largeMeteoraQuote 1) = Meteora"
  using selectBestDex_policy [of "(+)" testRaydiumQuote testMeteoraQuote 1]
    selectBestDex_policy [of "(+)" testRaydiumQuote "testRaydiumQuote\<lparr>q_liquidity := 1000000\<rparr>" 1]
    selectBestDex_policy [of "(+)" "testRaydiumQuote\<lparr>q_liquidity := 1200000\<rparr>"
      "testRaydiumQuote\<lparr>q_liquidity := 800000\<rparr>" 1]
    selectBestDex_policy [of roundingPlus largeRaydiumQuote largeMeteoraQuote 1]
    selectBestDex_policy [of "(+)" largeRaydiumQuote largeMeteoraQuote 1]
  by (simp add: testRaydiumQuote_def testMeteoraQuote_def largeRaydiumQuote_def
        largeMeteoraQuote_def roundingPlus_def)

text \<open>
  Claim C5. For every quote of \<open>getRaydiumQuote\<close> and of \<open>getMeteorQuote\<close>, whatever the
  tokens, the amount and the random draws, the field \<open>amountOut\<close> equals
  \<open>amount * price * (1 - fee)\<close> for the \<open>price\<close> and \<open>fee\<close> fields of the same quote.
\<close>

theorem quote_amountOut:
  "q_amountOut (getRaydiumQuote rnd clock tokenIn tokenOut amount) =
     amount * q_price (getRaydiumQuote rnd clock tokenIn tokenOut amount)
            * (1 - q_fee (getRaydiumQuote rnd clock tokenIn tokenOut amount))
   \<and> q_amountOut (getMeteorQuote rnd' clock' tokenIn' tokenOut' amount') =
     amount' * q_price (getMeteorQuote rnd' clock' tokenIn' tokenOut' amount')
            * (1 - q_fee (getMeteorQuote rnd' clock' tokenIn' tokenOut' amount'))"
  by (simp add: getRaydiumQuote_def getMeteorQuote_def Let_def)

text \<open>
  Claim C6. For an order with slippage tolerance \<open>s > 0\<close> and a draw \<open>r\<close> of the randomness
  source in \<open>[0, 1)\<close>, the executed price of \<open>executeSwap\<close> is \<open>basePrice * (1 - u)\<close> for
  \<open>u = r * s\<close>, which lies in \<open>[0, s)\<close>; so the executed price is at least
  \<open>basePrice * (1 - s)\<close> and at most \<open>basePrice\<close>.
\<close>

theorem executeSwap_slippage_bounded:
  assumes "0 \<le> rnd 1" and "rnd 1 < 1" and "0 < o_slippage order"
  shows "sr_executedPrice (executeSwap rnd clock dex order) = basePrice * (1 - rnd 1 * o_slippage order)
     \<and> 0 \<le> rnd 1 * o_slippage order
     \<and> rnd 1 * o_slippage order < o_slippage order
     \<and> basePrice * (1 - o_slippage order) \<le> sr_executedPrice (executeSwap rnd clock dex order)
     \<and> sr_executedPrice (executeSwap rnd clock dex order) \<le> basePrice"
proof -
  let ?u = "rnd 1 * o_slippage order"
  have u0: "0 \<le> ?u" using assms by simp
  have u1: "?u < o_slippage order" using assms by simp
  have p: "sr_executedPrice (executeSwap rnd clock dex order) = basePrice * (1 - ?u)"
    by (simp add: executeSwap_def Let_def)
  have lo: "basePrice * (1 - o_slippage order) \<le> basePrice * (1 - ?u)"
    using u1 by (simp add: basePrice_def)
  have hi: "basePrice * (1 - ?u) \<le> basePrice"
    using u0 by (simp add: basePrice_def)
  show ?thesis using u0 u1 p lo hi by simp
qed

theorem executeSwap_slippage_bounded_witness:
  "sr_executedPrice (executeSwap (\<lambda>i. 1 / 2) 0 Raydium mockOrder) = 99.5
   \<and> basePrice * (1 - o_slippage mockOrder) \<le> sr_executedPrice (executeSwap (\<lambda>i. 1 / 2) 0 Raydium mockOrder)
   \<and> sr_executedPrice (executeSwap (\<lambda>i. 1 / 2) 0 Raydium mockOrder) \<le> basePrice"
  using executeSwap_slippage_bounded [of "\<lambda>i. 1 / 2" mockOrder 0 Raydium]
  by (simp add: mockOrder_def basePrice_def)

section \<open>Properties of the socket manager\<close>

lemma map_of_filter_other_key:
  "map_of (filter (\<lambda>(k, c). k \<noteq> orderId) cs) orderId = None"
  by (induction cs) auto

lemma broadcast_loop_send_calls:
  "send_calls (broadcast_loop message cs w) = send_calls w @ map (broadcastCall message) cs"
  by (induction cs arbitrary: w)
     (auto simp: socket_send_def connections_delete_def broadcastCall_def split: bool.splits)

lemma broadcast_loop_connections:
  "connections (broadcast_loop message cs w) =
     filter (\<lambda>(k, c). k \<notin> fst ` {e \<in> set cs. sock_send_throws (c_socket (snd e))}) (connections w)"
proof (induction cs arbitrary: w)
  case Nil
  then show ?case by simp
next
  case (Cons e cs)
  obtain k c where e: "e = (k, c)" by (cases e)
  show ?case
  proof (cases "sock_send_throws (c_socket c)")
    case True
    have "{x \<in> set (e # cs). sock_send_throws (c_socket (snd x))}
            = insert e {x \<in> set cs. sock_send_throws (c_socket (snd x))}"
      using True e by auto
    then show ?thesis
      using True e Cons.IH
      by (auto simp: socket_send_def connections_delete_def intro!: filter_cong)
  next
    case False
    have "{x \<in> set (e # cs). sock_send_throws (c_socket (snd x))}
            = {x \<in> set cs. sock_send_throws (c_socket (snd x))}"
      using False e by auto
    then show ?thesis
      using False e Cons.IH by (simp add: socket_send_def)
  qed
qed

lemma broadcast_connections_distinct:
  assumes "distinct (map fst (connections w))"
  shows "connections (broadcast message w) =
           filter (\<lambda>(k, c). \<not> sock_send_throws (c_socket c)) (connections w)"
proof -
  have "\<And>k c. (k, c) \<in> set (connections w) \<Longrightarrow>
          (k \<in> fst ` {e \<in> set (connections w). sock_send_throws (c_socket (snd e))})
            = sock_send_throws (c_socket c)"
  proof -
    fix k c assume kc: "(k, c) \<in> set (connections w)"
    show "(k \<in> fst ` {e \<in> set (connections w). sock_send_throws (c_socket (snd e))})
            = sock_send_throws (c_socket c)"
    proof
      assume "k \<in> fst ` {e \<in> set (connections w). sock_send_throws (c_socket (snd e))}"
      then obtain c' where c': "(k, c') \<in> set (connections w)" "sock_send_throws (c_socket c')"
        by auto
      from assms kc c'(1) have "c' = c" by (meson eq_key_imp_eq_value)
      with c'(2) show "sock_send_throws (c_socket c)" by simp
    next
      assume "sock_send_throws (c_socket c)"
      with kc show "k \<in> fst ` {e \<in> set (connections w). sock_send_throws (c_socket (snd e))}"
        by force
    qed
  qed
  then show ?thesis
    unfolding broadcast_def broadcast_loop_connections
    by (intro filter_cong) auto
qed

text \<open>
  Claim C8. When the socket of the subscriber registered for an order id throws during
  \<open>sendMessage\<close>, the call is made once, the subscriber is removed from the map, a later
  \<open>sendMessage\<close> for that id does nothing, and a later \<open>broadcast\<close> makes no call for that
  id. \<open>broadcast\<close> calls \<open>send\<close> once for every subscriber in the map, in order, whether
  earlier calls threw or not, never raises, and leaves in the map exactly the subscribers
  whose call did not throw.
\<close>

theorem fanout_failure_handling:
  "(map_of (connections w) orderId = Some c \<and> sock_send_throws (c_socket c) \<longrightarrow>
      send_calls (sendMessage orderId message w) =
        send_calls w @ [\<lparr> sc_orderId = orderId, sc_socket = sock_id (c_socket c),
                          sc_payload = OrderMessage message, sc_delivered = False \<rparr>]
    \<and> map_of (connections (sendMessage orderId message w)) orderId = None
    \<and> sendMessage orderId message' (sendMessage orderId message w) = sendMessage orderId message w
    \<and> orderId \<notin> sc_orderId ` set (drop (length (send_calls (sendMessage orderId message w)))
                                   (send_calls (broadcast bmessage (sendMessage orderId message w)))))
   \<and> send_calls (broadcast bmessage w) = send_calls w @ map (broadcastCall bmessage) (connections w)
   \<and> (distinct (map fst (connections w)) \<longrightarrow>
        connections (broadcast bmessage w) =
          filter (\<lambda>(k, c). \<not> sock_send_throws (c_socket c)) (connections w))"
proof -
  have removed: "map_of (connections (sendMessage orderId message w)) orderId = None"
    if "map_of (connections w) orderId = Some c" "sock_send_throws (c_socket c)"
    using that by (simp add: sendMessage_def socket_send_def connections_delete_def map_of_filter_other_key)
  have calls: "send_calls (sendMessage orderId message w) =
        send_calls w @ [\<lparr> sc_orderId = orderId, sc_socket = sock_id (c_socket c),
                          sc_payload = OrderMessage message, sc_delivered = False \<rparr>]"
    if "map_of (connections w) orderId = Some c" "sock_send_throws (c_socket c)"
    using that by (simp add: sendMessage_def socket_send_def connections_delete_def)
  have again: "sendMessage orderId message' w' = w'" if "map_of (connections w') orderId = None" for w'
    using that by (simp add: sendMessage_def)
  have later: "orderId \<notin> sc_orderId ` set (drop (length (send_calls w')) (send_calls (broadcast bmessage w')))"
    if "map_of (connections w') orderId = None" for w'
  proof -
    from that have "orderId \<notin> fst ` set (connections w')"
      by (simp add: map_of_eq_None_iff)
    then show ?thesis
      by (force simp: broadcast_def broadcast_loop_send_calls broadcastCall_def)
  qed
  show ?thesis
    using removed calls again later broadcast_connections_distinct [of w bmessage]
    by (simp add: broadcast_def broadcast_loop_send_calls)
qed

text \<open>With the two subscribers of \<open>fanoutWorld\<close>: sending to \<open>a\<close> removes it; a broadcast
  calls both sockets and keeps \<open>b\<close>.\<close>

theorem fanout_failure_handling_witness:
  "map_of (connections fanoutWorld) ''a'' = Some \<lparr> c_orderId = ''a'', c_socket = brokenSocket, c_connectedAt = 0 \<rparr>
   \<and> sock_send_throws brokenSocket
   \<and> distinct (map fst (connections fanoutWorld))
   \<and> map_of (connections (sendMessage ''a'' (testMessage ''a'') fanoutWorld)) ''a'' = None
   \<and> map (\<lambda>call. (sc_orderId call, sc_delivered call)) (send_calls (broadcast testBroadcast fanoutWorld))
       = [(''a'', False), (''b'', True)]
   \<and> map fst (connections (broadcast testBroadcast fanoutWorld)) = [''b'']"
  using fanout_failure_handling [of fanoutWorld "''a''"
          "\<lparr> c_orderId = ''a'', c_socket = brokenSocket, c_connectedAt = 0 \<rparr>"
          "testMessage ''a''" "testMessage ''a''" testBroadcast]
  by (simp add: fanoutWorld_def emptyWorld_def brokenSocket_def liveSocket_def broadcastCall_def)

section \<open>Properties of the transition\<close>

lemma updateOrderStatus_hset_fault:
  assumes "faultAt w 0 = Some e"
  shows "updateOrderStatus orderId status data w = (Inl e, popFault w)"
  using assms by (simp add: transition_defs io_defs)

lemma updateOrderStatus_update_fault:
  assumes "faultAt w 0 = None" "faultAt w 1 = Some e"
  shows "fst (updateOrderStatus orderId status data w) = Inl e"
    and "redis_hashes (snd (updateOrderStatus orderId status data w)) =
           (redis_hashes w)(''order:'' @ orderId \<mapsto> cachedEntry orderId status data w)"
    and "orders (snd (updateOrderStatus orderId status data w)) = orders w"
    and "order_events (snd (updateOrderStatus orderId status data w)) = order_events w"
    and "send_calls (snd (updateOrderStatus orderId status data w)) = send_calls w"
    and "connections (snd (updateOrderStatus orderId status data w)) = connections w"
  using assms
  by (simp_all add: transition_defs io_defs fault_simps effect_defs split: option.splits)

lemma updateOrderStatus_insert_fault:
  assumes "faultAt w 0 = None" "faultAt w 1 = None" "faultAt w 2 = Some e"
  shows "fst (updateOrderStatus orderId status data w) = Inl e"
    and "redis_hashes (snd (updateOrderStatus orderId status data w)) =
           (redis_hashes w)(''order:'' @ orderId \<mapsto> cachedEntry orderId status data w)"
    and "orders (snd (updateOrderStatus orderId status data w)) orderId =
           map_option (updatedRow status data w) (orders w orderId)"
    and "order_events (snd (updateOrderStatus orderId status data w)) = order_events w"
    and "send_calls (snd (updateOrderStatus orderId status data w)) = send_calls w"
    and "connections (snd (updateOrderStatus orderId status data w)) = connections w"
  using assms
  by (simp_all add: transition_defs io_defs fault_simps effect_defs numeral_2_eq_2 split: option.splits)

lemma updateOrderStatus_no_row:
  assumes "faultAt w 0 = None" "faultAt w 1 = None" "faultAt w 2 = None" "orders w orderId = None"
  shows "fst (updateOrderStatus orderId status data w) = Inl fk_violation"
    and "redis_hashes (snd (updateOrderStatus orderId status data w)) =
           (redis_hashes w)(''order:'' @ orderId \<mapsto> cachedEntry orderId status data w)"
    and "orders (snd (updateOrderStatus orderId status data w)) = orders w"
    and "order_events (snd (updateOrderStatus orderId status data w)) = order_events w"
    and "send_calls (snd (updateOrderStatus orderId status data w)) = send_calls w"
    and "connections (snd (updateOrderStatus orderId status data w)) = connections w"
  using assms
  by (simp_all add: transition_defs io_defs fault_simps effect_defs numeral_2_eq_2 split: option.splits)

lemma updateOrderStatus_success:
  assumes "faultAt w 0 = None" "faultAt w 1 = None" "faultAt w 2 = None" "orders w orderId = Some row"
  shows "fst (updateOrderStatus orderId status data w) = Inr ()"
    and "redis_hashes (snd (updateOrderStatus orderId status data w)) =
           (redis_hashes w)(''order:'' @ orderId \<mapsto> cachedEntry orderId status data w)"
    and "orders (snd (updateOrderStatus orderId status data w)) =
           (orders w)(orderId \<mapsto> updatedRow status data w row)"
    and "order_events (snd (updateOrderStatus orderId status data w)) =
           order_events w @ [statusEvent orderId status data w]"
    and "send_calls (snd (updateOrderStatus orderId status data w)) =
           send_calls w @ statusCalls orderId status data w"
  using assms
  by (simp_all add: transition_defs io_defs fault_simps effect_defs numeral_2_eq_2
       split: option.splits bool.splits)


lemma updateOrderStatus_Inr_iff:
  "fst (updateOrderStatus orderId status data w) = Inr () \<longleftrightarrow>
     faultAt w 0 = None \<and> faultAt w 1 = None \<and> faultAt w 2 = None \<and> orders w orderId \<noteq> None"
proof (cases "faultAt w 0")
  case (Some e)
  then show ?thesis by (simp add: updateOrderStatus_hset_fault)
next
  case f0: None
  show ?thesis
  proof (cases "faultAt w 1")
    case (Some e)
    then show ?thesis using f0 by (simp add: updateOrderStatus_update_fault)
  next
    case f1: None
    show ?thesis
    proof (cases "faultAt w 2")
      case (Some e)
      then show ?thesis using f0 f1 by (simp add: updateOrderStatus_insert_fault)
    next
      case f2: None
      show ?thesis
      proof (cases "orders w orderId")
        case None
        then show ?thesis using f0 f1 f2 by (simp add: updateOrderStatus_no_row)
      next
        case (Some row)
        then show ?thesis using f0 f1 f2 by (simp add: updateOrderStatus_success)
      qed
    qed
  qed
qed

lemma updateOrderStatus_frame:
  "redis_strings (snd (updateOrderStatus orderId status data w)) = redis_strings w"
  "routing_decisions (snd (updateOrderStatus orderId status data w)) = routing_decisions w"
  "jobs (snd (updateOrderStatus orderId status data w)) = jobs w"
  "now (snd (updateOrderStatus orderId status data w)) = now w"
  "dom (orders (snd (updateOrderStatus orderId status data w))) = dom (orders w)"
  by (auto simp: transition_defs io_defs fault_simps split: option.splits bool.splits)

lemma updateOrderStatus_raises:
  assumes "fst (updateOrderStatus orderId status data w) \<noteq> Inr ()"
  shows "order_events (snd (updateOrderStatus orderId status data w)) = order_events w"
    and "send_calls (snd (updateOrderStatus orderId status data w)) = send_calls w"
proof -
  have "order_events (snd (updateOrderStatus orderId status data w)) = order_events w
      \<and> send_calls (snd (updateOrderStatus orderId status data w)) = send_calls w"
  proof (cases "faultAt w 0")
    case (Some e)
    then show ?thesis by (simp add: updateOrderStatus_hset_fault popFault_fields)
  next
    case f0: None
    show ?thesis
    proof (cases "faultAt w 1")
      case (Some e)
      then show ?thesis using f0 by (simp add: updateOrderStatus_update_fault)
    next
      case f1: None
      show ?thesis
      proof (cases "faultAt w 2")
        case (Some e)
        then show ?thesis using f0 f1 by (simp add: updateOrderStatus_insert_fault)
      next
        case f2: None
        with assms f0 f1 have "orders w orderId = None"
          by (simp add: updateOrderStatus_Inr_iff)
        then show ?thesis using f0 f1 f2 by (simp add: updateOrderStatus_no_row)
      qed
    qed
  qed
  then show "order_events (snd (updateOrderStatus orderId status data w)) = order_events w"
    and "send_calls (snd (updateOrderStatus orderId status data w)) = send_calls w"
    by simp_all
qed

text \<open>
  Claim C1, as stated, fails: \<open>updateOrderStatus\<close> does not read the status of the order.
  Here an order that is \<open>confirmed\<close>, with its execution data, is moved to \<open>routing\<close>, its
  execution data is erased and an event is appended.
\<close>

theorem transition_from_terminal_counterexample:
  "isTerminal (row_status (mockRow\<lparr>row_status := ''confirmed'', row_execution_data := Some confirmedData\<rparr>))
   \<and> orders (storedWorld ''confirmed'' (Some confirmedData) []) ''test-order-123''
       = Some (mockRow\<lparr>row_status := ''confirmed'', row_execution_data := Some confirmedData\<rparr>)
   \<and> order_events (storedWorld ''confirmed'' (Some confirmedData) []) = []
   \<and> fst (updateOrderStatus ''test-order-123'' Routing None (storedWorld ''confirmed'' (Some confirmedData) []))
       = Inr ()
   \<and> orders (snd (updateOrderStatus ''test-order-123'' Routing None
                    (storedWorld ''confirmed'' (Some confirmedData) []))) ''test-order-123''
       = Some (mockRow\<lparr>row_status := ''routing'', row_execution_data := None\<rparr>)
   \<and> order_events (snd (updateOrderStatus ''test-order-123'' Routing None
                    (storedWorld ''confirmed'' (Some confirmedData) [])))
       = [\<lparr> ev_order_id = ''test-order-123'', ev_status = ''routing'', ev_data = None, ev_timestamp = 0 \<rparr>]"
  by (simp add: transition_defs io_defs storedWorld_def emptyWorld_def mockRow_def isTerminal_def
        faultAt_def popFault_def)

text \<open>
  Claim C1, amended. For an order in a terminal status (\<open>confirmed\<close>, \<open>failed\<close>,
  \<open>cancelled\<close>), a transition through \<open>updateOrderStatus\<close> whose three store calls succeed
  is applied like any other: the stored status becomes the new status, the stored
  execution data becomes the data given (null when none is given), and one event is
  appended to the log.
\<close>

theorem transition_from_terminal:
  assumes "orders w orderId = Some row" and "isTerminal (row_status row)"
    and "faultAt w 0 = None" and "faultAt w 1 = None" and "faultAt w 2 = None"
  shows "fst (updateOrderStatus orderId status data w) = Inr ()
     \<and> orders (snd (updateOrderStatus orderId status data w)) orderId =
         Some (row\<lparr>row_status := statusString status, row_updated_at := now w,
                   row_execution_data := data\<rparr>)
     \<and> order_events (snd (updateOrderStatus orderId status data w)) =
         order_events w @ [\<lparr> ev_order_id = orderId, ev_status = statusString status,
                             ev_data = map_option ExecData data, ev_timestamp = now w \<rparr>]"
  using updateOrderStatus_success [OF assms(3,4,5,1), of status data]
  by (simp add: updatedRow_def statusEvent_def)

text \<open>A \<open>failed\<close> order is moved to \<open>routing\<close>, as on a retry of its job.\<close>

theorem transition_from_terminal_witness:
  "orders (storedWorld ''failed'' None []) ''test-order-123'' = Some (mockRow\<lparr>row_status := ''failed''\<rparr>)
   \<and> isTerminal (row_status (mockRow\<lparr>row_status := ''failed''\<rparr>))
   \<and> faultAt (storedWorld ''failed'' None []) 0 = None
   \<and> faultAt (storedWorld ''failed'' None []) 1 = None
   \<and> faultAt (storedWorld ''failed'' None []) 2 = None
   \<and> fst (updateOrderStatus ''test-order-123'' Routing None (storedWorld ''failed'' None [])) = Inr ()
   \<and> orders (snd (updateOrderStatus ''test-order-123'' Routing None (storedWorld ''failed'' None [])))
        ''test-order-123'' = Some (mockRow\<lparr>row_status := ''routing''\<rparr>)"
proof -
  have h1: "orders (storedWorld ''failed'' None []) ''test-order-123'' = Some (mockRow\<lparr>row_status := ''failed''\<rparr>)"
    by (simp add: storedWorld_def emptyWorld_def mockRow_def)
  have h2: "isTerminal (row_status (mockRow\<lparr>row_status := ''failed''\<rparr>))"
    by (simp add: isTerminal_def)
  have h3: "faultAt (storedWorld ''failed'' None []) 0 = None"
    "faultAt (storedWorld ''failed'' None []) 1 = None"
    "faultAt (storedWorld ''failed'' None []) 2 = None"
    by (simp_all add: faultAt_def storedWorld_def emptyWorld_def)
  show ?thesis
    using transition_from_terminal [OF h1 h2 h3, of Routing None] h1 h2 h3
    by (simp add: storedWorld_def emptyWorld_def mockRow_def)
qed

text \<open>
  Claim C3, as stated, fails: nothing is undone when a later step raises. Here the
  \<open>UPDATE\<close> of the row rejects: the operation raises, the cache already holds the new
  status \<open>routing\<close>, and the row still says \<open>pending\<close>.
\<close>

theorem transition_not_atomic_counterexample:
  "fst (updateOrderStatus ''test-order-123'' Routing None
          (storedWorld ''pending'' None [None, Some (Error ''database down'')]))
     = Inl (Error ''database down'')
   \<and> redis_hashes (storedWorld ''pending'' None [None, Some (Error ''database down'')])
       ''order:test-order-123'' = None
   \<and> redis_hashes (snd (updateOrderStatus ''test-order-123'' Routing None
          (storedWorld ''pending'' None [None, Some (Error ''database down'')])))
       ''order:test-order-123''
     = Some \<lparr> rh_status = ''routing'', rh_updatedAt = 0, rh_executionData = None \<rparr>
   \<and> orders (snd (updateOrderStatus ''test-order-123'' Routing None
          (storedWorld ''pending'' None [None, Some (Error ''database down'')])))
       ''test-order-123''
     = Some mockRow"
  by (simp add: transition_defs io_defs storedWorld_def emptyWorld_def mockRow_def
        faultAt_def popFault_def)

text \<open>
  Claim C3, amended. \<open>updateOrderStatus\<close> performs, in this order, (a) the upsert of the
  cache entry, (b) the update of the row, (c) the insertion of the event and (d) the
  notification of the subscriber of the order, and undoes nothing. It returns normally
  exactly when the three store calls succeed and the row exists, and then all four
  effects have occurred (the notification is a call of \<open>send\<close> when a subscriber is
  registered and nothing otherwise). Otherwise it raises the error of the first call that
  failed, no event is appended and nobody is notified, and the effects of the calls
  before the failing one stay: nothing when the cache call failed; the cache entry when
  the update of the row failed; the cache entry and the updated row when the insertion
  of the event failed (which it also does, on the foreign key, when the order has no row).
\<close>

theorem transition_effects:
  fixes orderId :: string and status :: OrderStatus and data :: "ExecutionData option" and w :: world
  defines "r \<equiv> fst (updateOrderStatus orderId status data w)"
      and "w' \<equiv> snd (updateOrderStatus orderId status data w)"
      and "cached \<equiv> (redis_hashes (snd (updateOrderStatus orderId status data w)) =
                        (redis_hashes w)(''order:'' @ orderId \<mapsto> cachedEntry orderId status data w))"
  shows "(r = Inr () \<longleftrightarrow>
            faultAt w 0 = None \<and> faultAt w 1 = None \<and> faultAt w 2 = None \<and> orders w orderId \<noteq> None)
     \<and> (r = Inr () \<longrightarrow>
            cached
          \<and> (\<exists>row. orders w orderId = Some row
                   \<and> orders w' = (orders w)(orderId \<mapsto> updatedRow status data w row))
          \<and> order_events w' = order_events w @ [statusEvent orderId status data w]
          \<and> send_calls w' = send_calls w @ statusCalls orderId status data w)
     \<and> (r \<noteq> Inr () \<longrightarrow> order_events w' = order_events w \<and> send_calls w' = send_calls w)
     \<and> (\<forall>e. faultAt w 0 = Some e \<longrightarrow>
            r = Inl e \<and> redis_hashes w' = redis_hashes w \<and> orders w' = orders w)
     \<and> (\<forall>e. faultAt w 0 = None \<and> faultAt w 1 = Some e \<longrightarrow>
            r = Inl e \<and> cached \<and> orders w' = orders w)
     \<and> (\<forall>e. faultAt w 0 = None \<and> faultAt w 1 = None \<and> faultAt w 2 = Some e \<longrightarrow>
            r = Inl e \<and> cached
          \<and> orders w' orderId = map_option (updatedRow status data w) (orders w orderId))
     \<and> (faultAt w 0 = None \<and> faultAt w 1 = None \<and> faultAt w 2 = None \<and> orders w orderId = None \<longrightarrow>
            r = Inl fk_violation \<and> cached \<and> orders w' = orders w)"
proof -
  have c1: "r = Inr () \<longleftrightarrow>
            faultAt w 0 = None \<and> faultAt w 1 = None \<and> faultAt w 2 = None \<and> orders w orderId \<noteq> None"
    unfolding r_def by (rule updateOrderStatus_Inr_iff)
  have c2: "cached
          \<and> (\<exists>row. orders w orderId = Some row
                   \<and> orders w' = (orders w)(orderId \<mapsto> updatedRow status data w row))
          \<and> order_events w' = order_events w @ [statusEvent orderId status data w]
          \<and> send_calls w' = send_calls w @ statusCalls orderId status data w" if "r = Inr ()"
  proof -
    from that c1 obtain row where row: "orders w orderId = Some row"
      and f: "faultAt w 0 = None" "faultAt w 1 = None" "faultAt w 2 = None" by auto
    show ?thesis
      unfolding cached_def w'_def
      using updateOrderStatus_success [OF f row, of status data] row by simp
  qed
  have c4: "r = Inl e \<and> redis_hashes w' = redis_hashes w \<and> orders w' = orders w
            \<and> order_events w' = order_events w \<and> send_calls w' = send_calls w"
    if "faultAt w 0 = Some e" for e
    unfolding r_def w'_def using updateOrderStatus_hset_fault [OF that, of orderId status data]
    by (simp add: popFault_fields)
  have c5: "r = Inl e \<and> cached \<and> orders w' = orders w
            \<and> order_events w' = order_events w \<and> send_calls w' = send_calls w"
    if "faultAt w 0 = None" "faultAt w 1 = Some e" for e
    unfolding r_def w'_def cached_def
    using updateOrderStatus_update_fault [OF that, of orderId status data] by simp
  have c6: "r = Inl e \<and> cached
          \<and> orders w' orderId = map_option (updatedRow status data w) (orders w orderId)
          \<and> order_events w' = order_events w \<and> send_calls w' = send_calls w"
    if "faultAt w 0 = None" "faultAt w 1 = None" "faultAt w 2 = Some e" for e
    unfolding r_def w'_def cached_def
    using updateOrderStatus_insert_fault [OF that, of orderId status data] by simp
  have c7: "r = Inl fk_violation \<and> cached \<and> orders w' = orders w
            \<and> order_events w' = order_events w \<and> send_calls w' = send_calls w"
    if "faultAt w 0 = None" "faultAt w 1 = None" "faultAt w 2 = None" "orders w orderId = None"
    unfolding r_def w'_def cached_def
    using updateOrderStatus_no_row [OF that, of status data] by simp
  have c3: "order_events w' = order_events w \<and> send_calls w' = send_calls w" if "r \<noteq> Inr ()"
  proof (cases "faultAt w 0")
    case (Some e) then show ?thesis using c4 by simp
  next
    case f0: None
    show ?thesis
    proof (cases "faultAt w 1")
      case (Some e) then show ?thesis using c5 f0 by simp
    next
      case f1: None
      show ?thesis
      proof (cases "faultAt w 2")
        case (Some e) then show ?thesis using c6 f0 f1 by simp
      next
        case f2: None
        with that c1 f0 f1 have "orders w orderId = None" by auto
        then show ?thesis using c7 f0 f1 f2 by simp
      qed
    qed
  qed
  show ?thesis using c1 c2 c3 c4 c5 c6 c7 by blast
qed

text \<open>The update of the row rejects: the cache entry stays. No call rejects: the event is
  appended.\<close>

theorem transition_effects_witness:
  "faultAt (storedWorld ''pending'' None [None, Some (Error ''database down'')]) 0 = None
   \<and> faultAt (storedWorld ''pending'' None [None, Some (Error ''database down'')]) 1
       = Some (Error ''database down'')
   \<and> fst (updateOrderStatus ''test-order-123'' Routing None
          (storedWorld ''pending'' None [None, Some (Error ''database down'')]))
       = Inl (Error ''database down'')
   \<and> redis_hashes (snd (updateOrderStatus ''test-order-123'' Routing None
          (storedWorld ''pending'' None [None, Some (Error ''database down'')])))
       ''order:test-order-123''
       = Some \<lparr> rh_status = ''routing'', rh_updatedAt = 0, rh_executionData = None \<rparr>
   \<and> fst (updateOrderStatus ''test-order-123'' Routing None (storedWorld ''pending'' None [])) = Inr ()
   \<and> order_events (snd (updateOrderStatus ''test-order-123'' Routing None (storedWorld ''pending'' None [])))
       = [\<lparr> ev_order_id = ''test-order-123'', ev_status = ''routing'', ev_data = None, ev_timestamp = 0 \<rparr>]"
  using transition_effects [of "''test-order-123''" Routing None
          "storedWorld ''pending'' None [None, Some (Error ''database down'')]"]
        transition_effects [of "''test-order-123''" Routing None "storedWorld ''pending'' None []"]
  by (simp add: storedWorld_def emptyWorld_def mockRow_def faultAt_def effect_defs)


section \<open>Properties of processOrder\<close>

lemma redis_incr_cases:
  "(\<exists>e. fst (redis_incr key w) = Inl e \<and> redis_strings (snd (redis_incr key w)) = redis_strings w)
   \<or> (\<exists>i. counter w key = Some i \<and> fst (redis_incr key w) = Inr (i + 1)
          \<and> redis_strings (snd (redis_incr key w)) = (redis_strings w)(key \<mapsto> intToString 10 (i + 1)))"
  by (auto simp: redis_incr_def io_defs fault_simps counter_def split: option.splits)

lemma redis_incr_frame:
  "redis_hashes (snd (redis_incr key w)) = redis_hashes w"
  "orders (snd (redis_incr key w)) = orders w"
  "order_events (snd (redis_incr key w)) = order_events w"
  "routing_decisions (snd (redis_incr key w)) = routing_decisions w"
  "jobs (snd (redis_incr key w)) = jobs w"
  "connections (snd (redis_incr key w)) = connections w"
  "send_calls (snd (redis_incr key w)) = send_calls w"
  "now (snd (redis_incr key w)) = now w"
  by (auto simp: redis_incr_def io_defs fault_simps split: option.splits)

lemma updateMetrics_failure_frame:
  "redis_hashes (snd (updateMetrics [] False w)) = redis_hashes w"
  "orders (snd (updateMetrics [] False w)) = orders w"
  "order_events (snd (updateMetrics [] False w)) = order_events w"
  "send_calls (snd (updateMetrics [] False w)) = send_calls w"
  unfolding updateMetrics_def
  by (simp_all add: andThen_frame return_frame redis_incr_frame)

lemma updateMetrics_failure_success:
  assumes "fst (updateMetrics [] False w) = Inr ()"
  shows "\<exists>t f. counter w ''stats:total_orders'' = Some t \<and> counter w ''stats:failed_orders'' = Some f
           \<and> redis_strings (snd (updateMetrics [] False w)) =
               (redis_strings w)(''stats:total_orders'' \<mapsto> intToString 10 (t + 1),
                                 ''stats:failed_orders'' \<mapsto> intToString 10 (f + 1))"
proof -
  let ?w1 = "snd (redis_incr ''stats:total_orders'' w)"
  from assms obtain a where a: "fst (redis_incr ''stats:total_orders'' w) = Inr a"
    by (auto simp: updateMetrics_def andThen_def return_def split: prod.splits sum.splits)
  with redis_incr_cases [of "''stats:total_orders''" w]
  obtain t where t: "counter w ''stats:total_orders'' = Some t"
    "redis_strings ?w1 = (redis_strings w)(''stats:total_orders'' \<mapsto> intToString 10 (t + 1))"
    by auto
  from assms a obtain b where b: "fst (redis_incr ''stats:failed_orders'' ?w1) = Inr b"
    by (auto simp: updateMetrics_def andThen_def return_def split: prod.splits sum.splits)
  with redis_incr_cases [of "''stats:failed_orders''" ?w1]
  obtain f where f: "counter ?w1 ''stats:failed_orders'' = Some f"
    "redis_strings (snd (redis_incr ''stats:failed_orders'' ?w1)) =
       (redis_strings ?w1)(''stats:failed_orders'' \<mapsto> intToString 10 (f + 1))"
    by auto
  have same: "counter ?w1 ''stats:failed_orders'' = counter w ''stats:failed_orders''"
    by (simp add: counter_def t(2))
  have final: "snd (updateMetrics [] False w) = snd (redis_incr ''stats:failed_orders'' ?w1)"
    using a b by (auto simp: updateMetrics_def andThen_def return_def split: prod.splits sum.splits)
  show ?thesis
    using t f same final by auto
qed

lemma processOrder_catch:
  assumes "fst (processOrder_try env order w) = Inl e"
  shows "processOrder env order w =
           andThen (updateOrderStatus (o_id order) Failed (Some (errorData e))) (\<lambda>_.
           andThen (updateMetrics [] False) (\<lambda>_. throw e)) (snd (processOrder_try env order w))"
proof (cases "processOrder_try env order w")
  case (Pair r w')
  with assms have "r = Inl e" by simp
  with Pair show ?thesis by (simp add: processOrder_def tryCatch_def)
qed

text \<open>
  Claim C4, as stated, fails: the handler of \<open>processOrder\<close> is not protected itself. Here
  the quote request to Raydium rejects with \<open>quote timeout\<close>; in the handler, the
  \<open>UPDATE\<close> of the transition to \<open>failed\<close> rejects with \<open>database down\<close>. The order stays
  in \<open>routing\<close>, no \<open>failed\<close> event is logged, no counter is touched, and the exception
  that reaches the job runner is \<open>database down\<close>, not the one that was caught.
\<close>

theorem processOrder_failure_counterexample:
  "fst (processOrder_try mockEnv mockOrder (storedWorld ''pending'' None quoteThenStoreFault))
     = Inl (Error ''quote timeout'')
   \<and> fst (processOrder mockEnv mockOrder (storedWorld ''pending'' None quoteThenStoreFault))
     = Inl (Error ''database down'')
   \<and> map_option row_status
       (orders (snd (processOrder mockEnv mockOrder (storedWorld ''pending'' None quoteThenStoreFault)))
          ''test-order-123'') = Some ''routing''
   \<and> map ev_status
       (order_events (snd (processOrder mockEnv mockOrder (storedWorld ''pending'' None quoteThenStoreFault))))
     = [''routing'']
   \<and> redis_strings (snd (processOrder mockEnv mockOrder (storedWorld ''pending'' None quoteThenStoreFault)))
       ''stats:failed_orders'' = None
   \<and> redis_strings (snd (processOrder mockEnv mockOrder (storedWorld ''pending'' None quoteThenStoreFault)))
       ''stats:total_orders'' = None"
  by (simp add: eval_defs)

text \<open>
  Claim C4, amended. When a step of the \<open>try\<close> block of \<open>processOrder\<close> raises \<open>e\<close>, the
  handler runs the transition to \<open>failed\<close> with the message of \<open>e\<close> (\<open>Unknown error\<close> when
  \<open>e\<close> is no \<open>Error\<close>) as execution data, then the update of the failure metrics, then
  raises \<open>e\<close> again. If the transition and the metrics update return normally, the row
  of the order is \<open>failed\<close> with that execution data, a \<open>failed\<close> event is appended, the
  counters \<open>total_orders\<close> and \<open>failed_orders\<close> are each one higher, and the exception
  raised is \<open>e\<close>. If the transition raises, its exception is raised in place of \<open>e\<close>, no
  \<open>failed\<close> event is appended and no counter changes; if the metrics update raises, its
  exception is raised in place of \<open>e\<close>. In every case \<open>processOrder\<close> raises.
\<close>

theorem processOrder_failure:
  fixes env :: ProcessEnv and order :: Order and w :: world and e :: exn
  defines "w1 \<equiv> snd (processOrder_try env order w)"
  defines "w2 \<equiv> snd (updateOrderStatus (o_id order) Failed (Some (errorData e)) w1)"
  defines "w3 \<equiv> snd (updateMetrics [] False w2)"
  assumes raised: "fst (processOrder_try env order w) = Inl e"
  shows "(\<exists>e'. fst (processOrder env order w) = Inl e')
     \<and> (fst (updateOrderStatus (o_id order) Failed (Some (errorData e)) w1) = Inr ()
          \<and> fst (updateMetrics [] False w2) = Inr () \<longrightarrow>
            processOrder env order w = (Inl e, w3)
          \<and> (\<exists>row. orders w1 (o_id order) = Some row
                \<and> orders w3 (o_id order) =
                    Some (row\<lparr>row_status := ''failed'', row_updated_at := now w1,
                              row_execution_data := Some (errorData e)\<rparr>))
          \<and> ed_error (errorData e) = Some (errorMessage e)
          \<and> order_events w3 = order_events w1 @
                [\<lparr> ev_order_id = o_id order, ev_status = ''failed'',
                   ev_data = Some (ExecData (errorData e)), ev_timestamp = now w1 \<rparr>]
          \<and> (\<exists>t f. counter w1 ''stats:total_orders'' = Some t
                \<and> counter w1 ''stats:failed_orders'' = Some f
                \<and> redis_strings w3 =
                    (redis_strings w1)(''stats:total_orders'' \<mapsto> intToString 10 (t + 1),
                                       ''stats:failed_orders'' \<mapsto> intToString 10 (f + 1))))
     \<and> (\<forall>e2. fst (updateOrderStatus (o_id order) Failed (Some (errorData e)) w1) = Inl e2 \<longrightarrow>
            processOrder env order w = (Inl e2, w2)
          \<and> order_events w2 = order_events w1 \<and> redis_strings w2 = redis_strings w1)
     \<and> (\<forall>e3. fst (updateOrderStatus (o_id order) Failed (Some (errorData e)) w1) = Inr ()
          \<and> fst (updateMetrics [] False w2) = Inl e3 \<longrightarrow>
            processOrder env order w = (Inl e3, w3))"
proof -
  let ?t = "updateOrderStatus (o_id order) Failed (Some (errorData e)) w1"
  let ?m = "updateMetrics [] False w2"
  have p: "processOrder env order w = andThen (updateOrderStatus (o_id order) Failed (Some (errorData e)))
             (\<lambda>_. andThen (updateMetrics [] False) (\<lambda>_. throw e)) w1"
    unfolding w1_def by (rule processOrder_catch [OF raised])
  have always: "\<exists>e'. fst (processOrder env order w) = Inl e'"
    unfolding p by (auto simp: andThen_def throw_def split: prod.splits sum.splits)
  have replaced: "processOrder env order w = (Inl e2, w2)
      \<and> order_events w2 = order_events w1 \<and> redis_strings w2 = redis_strings w1"
    if "fst ?t = Inl e2" for e2
  proof -
    have "fst ?t \<noteq> Inr ()" using that by simp
    then have "order_events w2 = order_events w1"
      unfolding w2_def by (rule updateOrderStatus_raises)
    moreover have "redis_strings w2 = redis_strings w1"
      unfolding w2_def by (rule updateOrderStatus_frame)
    moreover have "processOrder env order w = (Inl e2, w2)"
      unfolding p w2_def using that by (auto simp: andThen_def split: prod.splits sum.splits)
    ultimately show ?thesis by simp
  qed
  have metrics: "processOrder env order w = (Inl e3, w3)"
    if "fst ?t = Inr ()" "fst ?m = Inl e3" for e3
    unfolding p w3_def using that unfolding w2_def
    by (auto simp: andThen_def split: prod.splits sum.splits)
  have recovered: "processOrder env order w = (Inl e, w3)
          \<and> (\<exists>row. orders w1 (o_id order) = Some row
                \<and> orders w3 (o_id order) =
                    Some (row\<lparr>row_status := ''failed'', row_updated_at := now w1,
                              row_execution_data := Some (errorData e)\<rparr>))
          \<and> ed_error (errorData e) = Some (errorMessage e)
          \<and> order_events w3 = order_events w1 @
                [\<lparr> ev_order_id = o_id order, ev_status = ''failed'',
                   ev_data = Some (ExecData (errorData e)), ev_timestamp = now w1 \<rparr>]
          \<and> (\<exists>t f. counter w1 ''stats:total_orders'' = Some t
                \<and> counter w1 ''stats:failed_orders'' = Some f
                \<and> redis_strings w3 =
                    (redis_strings w1)(''stats:total_orders'' \<mapsto> intToString 10 (t + 1),
                                       ''stats:failed_orders'' \<mapsto> intToString 10 (f + 1)))"
    if t: "fst ?t = Inr ()" and m: "fst ?m = Inr ()"
  proof -
    from t obtain row where row: "orders w1 (o_id order) = Some row"
      and f: "faultAt w1 0 = None" "faultAt w1 1 = None" "faultAt w1 2 = None"
      by (auto simp: updateOrderStatus_Inr_iff)
    note s = updateOrderStatus_success [OF f row, of Failed "Some (errorData e)"]
    have result: "processOrder env order w = (Inl e, w3)"
      unfolding p w3_def using t m unfolding w2_def
      by (auto simp: andThen_def throw_def split: prod.splits sum.splits)
    have rows: "orders w3 (o_id order) =
        Some (row\<lparr>row_status := ''failed'', row_updated_at := now w1,
                  row_execution_data := Some (errorData e)\<rparr>)"
      unfolding w3_def w2_def by (simp add: updateMetrics_failure_frame s(3) updatedRow_def)
    have events: "order_events w3 = order_events w1 @
                [\<lparr> ev_order_id = o_id order, ev_status = ''failed'',
                   ev_data = Some (ExecData (errorData e)), ev_timestamp = now w1 \<rparr>]"
      unfolding w3_def w2_def by (simp add: updateMetrics_failure_frame s(4) statusEvent_def)
    have strings: "redis_strings w2 = redis_strings w1"
      unfolding w2_def by (rule updateOrderStatus_frame)
    then have cnt: "counter w2 key = counter w1 key" for key
      by (simp add: counter_def)
    from updateMetrics_failure_success [OF m]
    have counters: "\<exists>t f. counter w1 ''stats:total_orders'' = Some t
                \<and> counter w1 ''stats:failed_orders'' = Some f
                \<and> redis_strings w3 =
                    (redis_strings w1)(''stats:total_orders'' \<mapsto> intToString 10 (t + 1),
                                       ''stats:failed_orders'' \<mapsto> intToString 10 (f + 1))"
      unfolding w3_def cnt strings by simp
    show ?thesis using result row rows events counters by (simp add: errorData_def)
  qed
  show ?thesis using always recovered replaced metrics by blast
qed


text \<open>The quote request to Raydium rejects and the handler completes.\<close>

lemma quoteFault_try:
  "fst (processOrder_try mockEnv mockOrder (storedWorld ''pending'' None quoteFault))
     = Inl (Error ''quote timeout'')"
  by (simp add: eval_defs)

lemma quoteFault_transition:
  "fst (updateOrderStatus ''test-order-123'' Failed (Some (errorData (Error ''quote timeout'')))
         (snd (processOrder_try mockEnv mockOrder (storedWorld ''pending'' None quoteFault)))) = Inr ()"
  by (simp add: eval_defs)

lemma quoteFault_metrics:
  "fst (updateMetrics [] False
         (snd (updateOrderStatus ''test-order-123'' Failed (Some (errorData (Error ''quote timeout'')))
           (snd (processOrder_try mockEnv mockOrder (storedWorld ''pending'' None quoteFault)))))) = Inr ()"
  by (simp add: eval_defs)

theorem processOrder_failure_witness:
  "fst (processOrder_try mockEnv mockOrder (storedWorld ''pending'' None quoteFault))
     = Inl (Error ''quote timeout'')
   \<and> fst (processOrder mockEnv mockOrder (storedWorld ''pending'' None quoteFault))
     = Inl (Error ''quote timeout'')
   \<and> (\<exists>row. orders (snd (processOrder mockEnv mockOrder (storedWorld ''pending'' None quoteFault)))
               ''test-order-123'' = Some row
           \<and> row_status row = ''failed''
           \<and> row_execution_data row = Some (errorData (Error ''quote timeout'')))"
  using processOrder_failure [OF quoteFault_try] quoteFault_try quoteFault_transition quoteFault_metrics
  by (auto simp: mockOrder_def)

text \<open>
  A run in which the order is confirmed and the metrics update that follows rejects: the
  handler moves the confirmed order to \<open>failed\<close>, and the order is counted twice in
  \<open>total_orders\<close>.
\<close>

lemma confirmed_then_failed:
  "fst (processOrder mockEnv mockOrder (storedWorld ''pending'' None metricsFault))
     = Inl (Error ''redis down'')
   \<and> map ev_status
       (order_events (snd (processOrder mockEnv mockOrder (storedWorld ''pending'' None metricsFault))))
     = [''routing'', ''building'', ''submitted'', ''confirmed'', ''failed'']
   \<and> map_option row_status
       (orders (snd (processOrder mockEnv mockOrder (storedWorld ''pending'' None metricsFault)))
          ''test-order-123'') = Some ''failed''
   \<and> redis_strings (snd (processOrder mockEnv mockOrder (storedWorld ''pending'' None metricsFault)))
       ''stats:total_orders'' = Some ''2''"
  by (simp add: eval_defs metricsFault_def generateMockTxHash_def intToString_def digitChar_def
        redisInteger_def isDigit_def digitsValue_def digitValue_def eval_nat_numeral)


section \<open>Properties of the cancellation route\<close>

lemmas cancel_defs = cancelHandler_def getOrder_def pg_select_order_def pg_update_order_status_def
  pg_insert_order_event_def
lemmas uuid_defs = isUuid_def isUuidBody_def isHexDigit_def
lemmas reply_defs = notFoundReply_def conflictReply_def cancelledReply_def serverErrorReply_def
  cancelledEvent_def

lemma cancelHandler_lookup_fault:
  assumes "faultAt w 0 = Some e"
  shows "cancelHandler orderId w = (serverErrorReply, popFault w)"
  using assms by (simp add: cancel_defs io_defs reply_defs)

lemma cancelHandler_not_found:
  assumes "faultAt w 0 = None" "orders w orderId = None"
  shows "cancelHandler orderId w = (notFoundReply orderId, popFault w)"
  using assms by (simp add: cancel_defs io_defs reply_defs fault_simps)

lemma cancelHandler_conflict:
  assumes "faultAt w 0 = None" "orders w orderId = Some row" "row_status row \<noteq> ''pending''"
  shows "cancelHandler orderId w = (conflictReply (row_status row), popFault w)"
  using assms by (simp add: cancel_defs io_defs reply_defs fault_simps)

lemma cancelHandler_update_fault:
  assumes "faultAt w 0 = None" "orders w orderId = Some row" "row_status row = ''pending''"
    "faultAt w 1 = Some e"
  shows "cancelHandler orderId w = (serverErrorReply, popFault (popFault w))"
  using assms by (simp add: cancel_defs io_defs reply_defs fault_simps)

lemma cancelHandler_insert_fault:
  assumes "faultAt w 0 = None" "orders w orderId = Some row" "row_status row = ''pending''"
    "faultAt w 1 = None" "faultAt w 2 = Some e"
  shows "fst (cancelHandler orderId w) = serverErrorReply"
    and "orders (snd (cancelHandler orderId w)) =
           (orders w)(orderId \<mapsto> row\<lparr>row_status := ''cancelled'', row_updated_at := now w\<rparr>)"
    and "order_events (snd (cancelHandler orderId w)) = order_events w"
    and "jobs (snd (cancelHandler orderId w)) = jobs w"
  using assms by (simp_all add: cancel_defs io_defs reply_defs fault_simps numeral_2_eq_2)

lemma cancelHandler_success:
  assumes "faultAt w 0 = None" "orders w orderId = Some row" "row_status row = ''pending''"
    "faultAt w 1 = None" "faultAt w 2 = None"
  shows "fst (cancelHandler orderId w) = cancelledReply orderId"
    and "orders (snd (cancelHandler orderId w)) =
           (orders w)(orderId \<mapsto> row\<lparr>row_status := ''cancelled'', row_updated_at := now w\<rparr>)"
    and "order_events (snd (cancelHandler orderId w)) = order_events w @ [cancelledEvent orderId w]"
    and "jobs (snd (cancelHandler orderId w)) = jobs w"
  using assms by (simp_all add: cancel_defs io_defs reply_defs fault_simps numeral_2_eq_2)

lemma cancelOrder_valid:
  "isUuid orderId \<Longrightarrow> cancelOrder development orderId w = cancelHandler orderId w"
  by (simp add: cancelOrder_def)

text \<open>
  Claim C9, as stated, fails: the two writes of a cancellation are not undone together.
  Here the order is \<open>pending\<close>, its id is well formed, and the \<open>INSERT\<close> of the event rejects
  after the \<open>UPDATE\<close> of the row: the cancellation does not succeed (reply 500), and yet
  the row says \<open>cancelled\<close> and no event is logged.
\<close>

theorem cancelOrder_policy_counterexample:
  "isUuid uuidOrderId
   \<and> map_option row_status (orders (uuidWorld ''pending'' eventInsertFault) uuidOrderId)
       = Some ''pending''
   \<and> rp_status (fst (cancelOrder False uuidOrderId (uuidWorld ''pending'' eventInsertFault))) = 500
   \<and> map_option row_status
       (orders (snd (cancelOrder False uuidOrderId (uuidWorld ''pending'' eventInsertFault)))
          uuidOrderId) = Some ''cancelled''
   \<and> order_events (snd (cancelOrder False uuidOrderId (uuidWorld ''pending'' eventInsertFault))) = []"
  by (simp add: cancelOrder_def cancelHandler_def getOrder_def pg_select_order_def
        pg_update_order_status_def pg_insert_order_event_def io_defs uuid_defs
        uuidWorld_def uuidOrderId_def eventInsertFault_def emptyWorld_def mockRow_def
        faultAt_def popFault_def)

text \<open>
  Claim C9, amended. A request to cancel whose id is not of format \<open>uuid\<close> is refused
  before the handler runs: the state is left as it is and the reply is the server's
  error reply. For an id of format \<open>uuid\<close>: the request is accepted (reply 200) exactly
  when the order exists with status \<open>pending\<close> and the three calls to the store (the
  lookup, the \<open>UPDATE\<close> of the row, the \<open>INSERT\<close> of the event) succeed, and then the row
  has status \<open>cancelled\<close> and a \<open>cancelled\<close> event is appended. For a stored order in any
  other status the state is left as it is and the reply is the conflict reply
  \<open>Cannot cancel order\<close> (status 400); for an unknown id the state is left as it is and
  the reply is \<open>Order not found\<close> (status 404); when the lookup itself rejects, the state
  is left as it is and the reply is 500. For a \<open>pending\<close> order the writes are not undone
  together: when the \<open>UPDATE\<close> rejects, the row stays \<open>pending\<close>, no event is appended and
  the reply is 500; when the \<open>INSERT\<close> of the event rejects after the \<open>UPDATE\<close>, the row is
  \<open>cancelled\<close>, no event is appended and the reply is 500.
\<close>

theorem cancelOrder_policy:
  "(\<not> isUuid orderId \<longrightarrow>
      cancelOrder development orderId w = (globalErrorHandler development validationError w, w))
   \<and> (isUuid orderId \<longrightarrow>
       (rp_status (fst (cancelOrder development orderId w)) = 200 \<longleftrightarrow>
          (\<exists>row. orders w orderId = Some row \<and> row_status row = ''pending'')
          \<and> faultAt w 0 = None \<and> faultAt w 1 = None \<and> faultAt w 2 = None)
     \<and> (\<forall>row. rp_status (fst (cancelOrder development orderId w)) = 200
              \<and> orders w orderId = Some row \<longrightarrow>
            fst (cancelOrder development orderId w) = cancelledReply orderId
          \<and> orders (snd (cancelOrder development orderId w)) =
              (orders w)(orderId \<mapsto> row\<lparr>row_status := ''cancelled'', row_updated_at := now w\<rparr>)
          \<and> order_events (snd (cancelOrder development orderId w)) =
              order_events w @ [cancelledEvent orderId w])
     \<and> (\<forall>row. orders w orderId = Some row \<and> row_status row \<noteq> ''pending'' \<longrightarrow>
            snd (cancelOrder development orderId w) = popFault w
          \<and> (faultAt w 0 = None \<longrightarrow>
                fst (cancelOrder development orderId w) = conflictReply (row_status row)))
     \<and> (orders w orderId = None \<longrightarrow>
            snd (cancelOrder development orderId w) = popFault w
          \<and> (faultAt w 0 = None \<longrightarrow>
                fst (cancelOrder development orderId w) = notFoundReply orderId))
     \<and> (\<forall>e. faultAt w 0 = Some e \<longrightarrow>
            cancelOrder development orderId w = (serverErrorReply, popFault w))
     \<and> (\<forall>row e. orders w orderId = Some row \<and> row_status row = ''pending''
              \<and> faultAt w 0 = None \<and> faultAt w 1 = Some e \<longrightarrow>
            cancelOrder development orderId w = (serverErrorReply, popFault (popFault w)))
     \<and> (\<forall>row e. orders w orderId = Some row \<and> row_status row = ''pending''
              \<and> faultAt w 0 = None \<and> faultAt w 1 = None \<and> faultAt w 2 = Some e \<longrightarrow>
            fst (cancelOrder development orderId w) = serverErrorReply
          \<and> orders (snd (cancelOrder development orderId w)) =
              (orders w)(orderId \<mapsto> row\<lparr>row_status := ''cancelled'', row_updated_at := now w\<rparr>)
          \<and> order_events (snd (cancelOrder development orderId w)) = order_events w))"
proof -
  let ?c = "cancelHandler orderId w"
  have not_found: "snd ?c = popFault w
        \<and> (faultAt w 0 = None \<longrightarrow> fst ?c = notFoundReply orderId)
        \<and> rp_status (fst ?c) \<noteq> 200"
    if "orders w orderId = None"
    using that cancelHandler_lookup_fault [of w _ orderId] cancelHandler_not_found [of w orderId]
    by (cases "faultAt w 0") (auto simp: reply_defs)
  have conflict: "snd ?c = popFault w
        \<and> (faultAt w 0 = None \<longrightarrow> fst ?c = conflictReply (row_status row))
        \<and> rp_status (fst ?c) \<noteq> 200"
    if "orders w orderId = Some row" "row_status row \<noteq> ''pending''" for row
    using that cancelHandler_lookup_fault [of w _ orderId] cancelHandler_conflict [of w orderId row]
    by (cases "faultAt w 0") (auto simp: reply_defs)
  have pending: "(rp_status (fst ?c) = 200 \<longleftrightarrow>
          faultAt w 0 = None \<and> faultAt w 1 = None \<and> faultAt w 2 = None)
      \<and> (rp_status (fst ?c) = 200 \<longrightarrow>
          fst ?c = cancelledReply orderId
        \<and> orders (snd ?c) =
            (orders w)(orderId \<mapsto> row\<lparr>row_status := ''cancelled'', row_updated_at := now w\<rparr>)
        \<and> order_events (snd ?c) = order_events w @ [cancelledEvent orderId w])"
    if row: "orders w orderId = Some row" "row_status row = ''pending''" for row
  proof (cases "faultAt w 0")
    case (Some e)
    then show ?thesis by (simp add: cancelHandler_lookup_fault reply_defs)
  next
    case f0: None
    show ?thesis
    proof (cases "faultAt w 1")
      case (Some e)
      then show ?thesis using f0 row by (simp add: cancelHandler_update_fault reply_defs)
    next
      case f1: None
      show ?thesis
      proof (cases "faultAt w 2")
        case (Some e)
        then show ?thesis
          using cancelHandler_insert_fault(1) [OF f0 row f1] f0 f1 by (simp add: reply_defs)
      next
        case None
        then show ?thesis
          using cancelHandler_success [OF f0 row f1] f0 f1 by (simp add: reply_defs)
      qed
    qed
  qed
  have iff: "rp_status (fst ?c) = 200 \<longleftrightarrow>
      (\<exists>row. orders w orderId = Some row \<and> row_status row = ''pending'')
      \<and> faultAt w 0 = None \<and> faultAt w 1 = None \<and> faultAt w 2 = None"
  proof (cases "orders w orderId")
    case None
    then show ?thesis using not_found by simp
  next
    case (Some row)
    then show ?thesis
      using conflict [of row] pending [of row] by (cases "row_status row = ''pending''") auto
  qed
  have accepted: "fst ?c = cancelledReply orderId
        \<and> orders (snd ?c) =
            (orders w)(orderId \<mapsto> row\<lparr>row_status := ''cancelled'', row_updated_at := now w\<rparr>)
        \<and> order_events (snd ?c) = order_events w @ [cancelledEvent orderId w]"
    if "rp_status (fst ?c) = 200" "orders w orderId = Some row" for row
  proof -
    from that iff have "row_status row = ''pending''" by auto
    with that pending [of row] show ?thesis by simp
  qed
  have lookup: "?c = (serverErrorReply, popFault w)" if "faultAt w 0 = Some e" for e
    using that by (rule cancelHandler_lookup_fault)
  have update: "?c = (serverErrorReply, popFault (popFault w))"
    if "orders w orderId = Some row" "row_status row = ''pending''"
      "faultAt w 0 = None" "faultAt w 1 = Some e" for row e
    using that by (simp add: cancelHandler_update_fault)
  have insert: "fst ?c = serverErrorReply
        \<and> orders (snd ?c) =
            (orders w)(orderId \<mapsto> row\<lparr>row_status := ''cancelled'', row_updated_at := now w\<rparr>)
        \<and> order_events (snd ?c) = order_events w"
    if "orders w orderId = Some row" "row_status row = ''pending''"
      "faultAt w 0 = None" "faultAt w 1 = None" "faultAt w 2 = Some e" for row e
    using cancelHandler_insert_fault [OF that(3) that(1) that(2) that(4) that(5)] by simp
  have refused: "cancelOrder development orderId w =
      (globalErrorHandler development validationError w, w)" if "\<not> isUuid orderId"
    using that by (simp add: cancelOrder_def)
  have valid: "cancelOrder development orderId w = ?c" if "isUuid orderId"
    using that by (rule cancelOrder_valid)
  show ?thesis
  proof (cases "isUuid orderId")
    case False
    then show ?thesis using refused by simp
  next
    case True
    show ?thesis
      unfolding valid [OF True]
      using True iff accepted conflict not_found lookup update insert by blast
  qed
qed

text \<open>With a well-formed id: a \<open>pending\<close> order is cancelled; a \<open>routing\<close> order and an unknown
  id are refused and nothing changes; a \<open>pending\<close> order whose event cannot be inserted is
  left \<open>cancelled\<close> without an event, with reply 500. The id of the unit tests is not of
  format \<open>uuid\<close>: the request is refused and nothing changes.\<close>

theorem cancelOrder_policy_witness:
  "isUuid uuidOrderId
   \<and> fst (cancelOrder False uuidOrderId (uuidWorld ''pending'' [])) = cancelledReply uuidOrderId
   \<and> map_option row_status
       (orders (snd (cancelOrder False uuidOrderId (uuidWorld ''pending'' []))) uuidOrderId)
       = Some ''cancelled''
   \<and> map ev_status (order_events (snd (cancelOrder False uuidOrderId (uuidWorld ''pending'' []))))
       = [''cancelled'']
   \<and> fst (cancelOrder False uuidOrderId (uuidWorld ''routing'' [])) = conflictReply ''routing''
   \<and> snd (cancelOrder False uuidOrderId (uuidWorld ''routing'' [])) = uuidWorld ''routing'' []
   \<and> fst (cancelOrder False uuidOrderId emptyWorld) = notFoundReply uuidOrderId
   \<and> snd (cancelOrder False uuidOrderId emptyWorld) = emptyWorld
   \<and> fst (cancelOrder False uuidOrderId (uuidWorld ''pending'' eventInsertFault)) = serverErrorReply
   \<and> map_option row_status
       (orders (snd (cancelOrder False uuidOrderId (uuidWorld ''pending'' eventInsertFault)))
          uuidOrderId) = Some ''cancelled''
   \<and> order_events (snd (cancelOrder False uuidOrderId (uuidWorld ''pending'' eventInsertFault))) = []
   \<and> \<not> isUuid ''test-order-123''
   \<and> rp_status (fst (cancelOrder False ''test-order-123'' (storedWorld ''pending'' None []))) = 500
   \<and> snd (cancelOrder False ''test-order-123'' (storedWorld ''pending'' None []))
       = storedWorld ''pending'' None []"
proof -
  have u: "isUuid uuidOrderId" "\<not> isUuid ''test-order-123''"
    by (simp_all add: uuid_defs uuidOrderId_def)
  show ?thesis
    using cancelOrder_policy [of uuidOrderId False "uuidWorld ''pending'' []"]
      cancelOrder_policy [of uuidOrderId False "uuidWorld ''routing'' []"]
      cancelOrder_policy [of uuidOrderId False emptyWorld]
      cancelOrder_policy [of uuidOrderId False "uuidWorld ''pending'' eventInsertFault"]
      cancelOrder_policy [of "''test-order-123''" False "storedWorld ''pending'' None []"]
      u
    by (simp add: uuidWorld_def storedWorld_def emptyWorld_def mockRow_def faultAt_def
          popFault_def cancelledEvent_def eventInsertFault_def globalErrorHandler_def)
qed


section \<open>Properties of submitOrder\<close>

lemma submitOrder_persist_fault:
  assumes "faultAt w 0 = Some e"
  shows "submitOrder order w = (Inl e, popFault w)"
  using assms
  by (simp add: submitOrder_def persistOrder_def pg_insert_order_def io_defs)

lemma submitOrder_duplicate:
  assumes "faultAt w 0 = None" "orders w (o_id order) = Some row"
  shows "submitOrder order w = (Inl pk_violation, popFault w)"
  using assms
  by (simp add: submitOrder_def persistOrder_def pg_insert_order_def io_defs fault_simps)

lemma submitOrder_queue_fault:
  assumes "faultAt w 0 = None" "orders w (o_id order) = None" "faultAt w 1 = Some e"
  shows "fst (submitOrder order w) = Inl e"
    and "jobs (snd (submitOrder order w)) = jobs w"
    and "dom (orders (snd (submitOrder order w))) = insert (o_id order) (dom (orders w))"
  using assms
  by (simp_all add: submitOrder_def persistOrder_def pg_insert_order_def queue_add_def io_defs fault_simps)

lemma submitOrder_queued:
  assumes "faultAt w 0 = None" "orders w (o_id order) = None" "faultAt w 1 = None"
  shows "jobs (snd (submitOrder order w)) = jobs w @ [submittedJob order]"
    and "dom (orders (snd (submitOrder order w))) = insert (o_id order) (dom (orders w))"
proof -
  define w2 where "w2 = popFault (popFault w\<lparr>orders := (orders w)(o_id order \<mapsto>
                \<lparr> row_type = o_type order,
                  row_token_in = o_tokenIn order,
                  row_token_out = o_tokenOut order,
                  row_amount_in = o_amountIn order,
                  row_slippage = o_slippage order,
                  row_status = o_status order,
                  row_created_at = now w,
                  row_updated_at = now w,
                  row_execution_data = None,
                  row_user_id = o_userId order \<rparr>)\<rparr>)\<lparr>jobs := jobs w @ [submittedJob order]\<rparr>"
  have s: "snd (submitOrder order w) = snd (updateOrderStatus (o_id order) Pending None w2)"
    using assms
    by (simp add: submitOrder_def persistOrder_def pg_insert_order_def queue_add_def io_defs fault_simps
          w2_def submittedJob_def split: prod.splits sum.splits)
  show "jobs (snd (submitOrder order w)) = jobs w @ [submittedJob order]"
    unfolding s updateOrderStatus_frame by (simp add: w2_def fault_simps)
  show "dom (orders (snd (submitOrder order w))) = insert (o_id order) (dom (orders w))"
    unfolding s updateOrderStatus_frame by (simp add: w2_def fault_simps)
qed

lemma submitOrder_Inr:
  assumes "fst (submitOrder order w) = Inr ()"
  shows "faultAt w 0 = None \<and> orders w (o_id order) = None \<and> faultAt w 1 = None"
proof -
  have "faultAt w 0 = None"
    using assms submitOrder_persist_fault [of w _ order] by (cases "faultAt w 0") auto
  moreover have "orders w (o_id order) = None"
    using assms calculation submitOrder_duplicate [of w order] by (cases "orders w (o_id order)") auto
  moreover have "faultAt w 1 = None"
    using assms calculation submitOrder_queue_fault(1) [of w order] by (cases "faultAt w 1") auto
  ultimately show ?thesis by simp
qed

lemma submitOrder_queueInvariant:
  assumes "queueInvariant w"
  shows "queueInvariant (snd (submitOrder order w))"
proof (cases "faultAt w 0")
  case (Some e)
  then show ?thesis
    using assms by (simp add: submitOrder_persist_fault queueInvariant_def fault_simps)
next
  case f0: None
  show ?thesis
  proof (cases "orders w (o_id order)")
    case (Some row)
    then show ?thesis
      using assms f0 by (simp add: submitOrder_duplicate queueInvariant_def fault_simps)
  next
    case absent: None
    then have fresh: "o_id order \<notin> job_id ` set (jobs w)"
      using assms by (auto simp: queueInvariant_def)
    show ?thesis
    proof (cases "faultAt w 1")
      case (Some e)
      then show ?thesis
        using assms f0 absent
        by (auto simp: submitOrder_queue_fault queueInvariant_def)
    next
      case None
      then show ?thesis
        using assms f0 absent fresh
        by (auto simp: submitOrder_queued queueInvariant_def submittedJob_def)
    qed
  qed
qed

text \<open>\<open>processOrder\<close> and the cancellation route leave the jobs and the set of stored ids as
  they are, so the invariant holds in every state reached from the empty one.\<close>

lemma queueView_updateOrderStatus:
  "queueView (snd (updateOrderStatus orderId status data w)) = queueView w"
  by (simp add: queueView_def updateOrderStatus_frame)

lemma queueView_updateMetrics:
  "queueView (snd (updateMetrics dex success w)) = queueView w"
  unfolding updateMetrics_def
  by (intro andThen_frame) (simp_all add: queueView_def return_def redis_incr_frame andThen_frame)

lemma queueView_router:
  "queueView (snd (dexRouter_getRaydiumQuote env a b c w)) = queueView w"
  "queueView (snd (dexRouter_getMeteorQuote env a b c w)) = queueView w"
  "queueView (snd (dexRouter_executeSwap env d order w)) = queueView w"
  "queueView (snd (persistRoutingDecision orderId decision w)) = queueView w"
  by (auto simp: queueView_def dexRouter_getRaydiumQuote_def dexRouter_getMeteorQuote_def
        dexRouter_executeSwap_def persistRoutingDecision_def pg_insert_routing_decision_def
        external_def fault_simps split: option.splits)

lemma queueView_processOrder:
  "queueView (snd (processOrder env order w)) = queueView w"
  unfolding processOrder_def processOrder_try_def Let_def
  by (intro tryCatch_frame andThen_frame promiseAll2_frame)
     (simp_all add: queueView_updateOrderStatus queueView_updateMetrics queueView_router
        return_frame throw_frame andThen_frame split: prod.splits)

lemma queueView_cancelHandler:
  "queueView (snd (cancelHandler orderId w)) = queueView w"
proof (cases "faultAt w 0")
  case (Some e)
  then show ?thesis by (simp add: cancelHandler_lookup_fault queueView_def fault_simps)
next
  case f0: None
  show ?thesis
  proof (cases "orders w orderId")
    case None
    then show ?thesis using f0 by (simp add: cancelHandler_not_found queueView_def fault_simps)
  next
    case (Some row)
    show ?thesis
    proof (cases "row_status row = ''pending''")
      case False
      then show ?thesis using f0 Some by (simp add: cancelHandler_conflict queueView_def fault_simps)
    next
      case pending: True
      show ?thesis
      proof (cases "faultAt w 1")
        case (Some e)
        then show ?thesis
          using f0 \<open>orders w orderId = Some row\<close> pending
          by (simp add: cancelHandler_update_fault queueView_def fault_simps)
      next
        case f1: None
        show ?thesis
        proof (cases "faultAt w 2")
          case (Some e)
          then show ?thesis
            using f0 \<open>orders w orderId = Some row\<close> pending f1
            by (auto simp: cancelHandler_insert_fault queueView_def)
        next
          case None
          then show ?thesis
            using f0 \<open>orders w orderId = Some row\<close> pending f1
            by (auto simp: cancelHandler_success queueView_def)
        qed
      qed
    qed
  qed
qed

lemma queueView_cancelOrder:
  "queueView (snd (cancelOrder development orderId w)) = queueView w"
  by (simp add: cancelOrder_def queueView_cancelHandler)

lemma queueInvariant_view:
  "queueView w' = queueView w \<Longrightarrow> queueInvariant w' = queueInvariant w"
  by (simp add: queueView_def queueInvariant_def)

lemma queueInvariant_emptyWorld: "queueInvariant emptyWorld"
  by (simp add: queueInvariant_def emptyWorld_def)

lemma queueInvariant_processOrder:
  "queueInvariant (snd (processOrder env order w)) = queueInvariant w"
  by (rule queueInvariant_view [OF queueView_processOrder])

lemma queueInvariant_cancelOrder:
  "queueInvariant (snd (cancelOrder development orderId w)) = queueInvariant w"
  by (rule queueInvariant_view [OF queueView_cancelOrder])


text \<open>
  Claim C7. A \<open>submitOrder\<close> that returns normally has handed exactly one job to the
  queue, whose job id is the id of the order. In a state where the queued jobs have
  distinct ids that all belong to stored orders (which holds initially and is kept by
  every operation), submitting an order whose id is already queued raises (the \<open>INSERT\<close>
  of the order is refused by the primary key, if it is reached) and hands no job over;
  so after any submission there is still at most one job for any order id.
\<close>

theorem submitOrder_one_job:
  "(fst (submitOrder order w) = Inr () \<longrightarrow>
      jobs (snd (submitOrder order w)) = jobs w @ [submittedJob order]
    \<and> job_id (submittedJob order) = o_id order)
   \<and> (queueInvariant w \<and> o_id order \<in> job_id ` set (jobs w) \<longrightarrow>
        (\<exists>e. fst (submitOrder order w) = Inl e) \<and> jobs (snd (submitOrder order w)) = jobs w)
   \<and> (queueInvariant w \<longrightarrow>
        queueInvariant (snd (submitOrder order w))
      \<and> length (filter (\<lambda>job. job_id job = orderId) (jobs (snd (submitOrder order w)))) \<le> 1)"
proof -
  have a: "jobs (snd (submitOrder order w)) = jobs w @ [submittedJob order]
         \<and> job_id (submittedJob order) = o_id order"
    if "fst (submitOrder order w) = Inr ()"
    using submitOrder_Inr [OF that] by (simp add: submitOrder_queued submittedJob_def)
  have b: "(\<exists>e. fst (submitOrder order w) = Inl e) \<and> jobs (snd (submitOrder order w)) = jobs w"
    if inv: "queueInvariant w" and queued: "o_id order \<in> job_id ` set (jobs w)"
  proof -
    from inv queued obtain row where row: "orders w (o_id order) = Some row"
      by (auto simp: queueInvariant_def)
    show ?thesis
    proof (cases "faultAt w 0")
      case (Some e)
      then show ?thesis by (simp add: submitOrder_persist_fault fault_simps)
    next
      case None
      then show ?thesis using row by (simp add: submitOrder_duplicate fault_simps)
    qed
  qed
  have c: "queueInvariant (snd (submitOrder order w))
      \<and> length (filter (\<lambda>job. job_id job = orderId) (jobs (snd (submitOrder order w)))) \<le> 1"
    if inv: "queueInvariant w"
  proof -
    have i: "queueInvariant (snd (submitOrder order w))"
      by (rule submitOrder_queueInvariant [OF inv])
    then have "distinct (map job_id (jobs (snd (submitOrder order w))))"
      by (simp add: queueInvariant_def)
    then have "length (filter (\<lambda>k. k = orderId) (map job_id (jobs (snd (submitOrder order w))))) \<le> Suc 0"
      by (rule distinct_filter_le_1)
    moreover have "length (filter (\<lambda>k. k = orderId) (map job_id (jobs (snd (submitOrder order w)))))
        = length (filter (\<lambda>job. job_id job = orderId) (jobs (snd (submitOrder order w))))"
      by (simp add: filter_map comp_def)
    ultimately show ?thesis using i by simp
  qed
  show ?thesis using a b c by blast
qed


text \<open>The order of the tests is submitted twice: one job, and the second call raises.\<close>

theorem submitOrder_one_job_witness:
  "fst (submitOrder mockOrder emptyWorld) = Inr ()
   \<and> jobs (snd (submitOrder mockOrder emptyWorld)) = [submittedJob mockOrder]
   \<and> queueInvariant emptyWorld
   \<and> queueInvariant (snd (submitOrder mockOrder emptyWorld))
   \<and> o_id mockOrder \<in> job_id ` set (jobs (snd (submitOrder mockOrder emptyWorld)))
   \<and> (\<exists>e. fst (submitOrder mockOrder (snd (submitOrder mockOrder emptyWorld))) = Inl e)
   \<and> jobs (snd (submitOrder mockOrder (snd (submitOrder mockOrder emptyWorld)))) = [submittedJob mockOrder]"
proof -
  have ok: "fst (submitOrder mockOrder emptyWorld) = Inr ()"
    by (simp add: submitOrder_def persistOrder_def pg_insert_order_def queue_add_def
          transition_defs io_defs emptyWorld_def mockOrder_def faultAt_def popFault_def)
  have inv: "queueInvariant emptyWorld"
    by (simp add: queueInvariant_def emptyWorld_def)
  show ?thesis
    using submitOrder_one_job [of mockOrder emptyWorld "''test-order-123''"]
      submitOrder_one_job [of mockOrder "snd (submitOrder mockOrder emptyWorld)" "''test-order-123''"]
      ok inv
    by (simp add: emptyWorld_def submittedJob_def)
qed


section \<open>Properties of getMetrics\<close>

lemmas parse_defs = parseInt_def orZero_def isWhiteSpace_def isRadixDigit_def digitsValue_def
  digitValue_def

lemma parseInt_cases: "parseInt s = NaN \<or> (\<exists>i. parseInt s = Num (of_int i))"
  unfolding parseInt_def Let_def
  by (simp split: prod.splits del: of_int_mult of_int_of_nat_eq)

lemma parseInt_zero: "parseInt (orZero None) = Num 0"
  by (simp add: parse_defs)

lemma jsGreater_zero:
  "jsGreater (parseInt s) (Num 0) \<longleftrightarrow> (\<exists>t. parseInt s = Num t \<and> 0 < t)"
  using parseInt_cases [of s] by auto

lemma faultAt_below:
  assumes "faultAt w 0 = None" "faultAt w 1 = None" "faultAt w 2 = None" "faultAt w 3 = None"
    "faultAt w 4 = None"
  shows "faultAt w 0 = None" "faultAt w (Suc 0) = None" "faultAt w (Suc (Suc 0)) = None"
    "faultAt w (Suc (Suc (Suc 0))) = None" "faultAt w (Suc (Suc (Suc (Suc 0)))) = None"
  using assms by (simp_all add: eval_nat_numeral)

lemma getMetrics_result:
  assumes "faultAt w 0 = None" "faultAt w 1 = None" "faultAt w 2 = None" "faultAt w 3 = None"
    "faultAt w 4 = None"
  shows "fst (getMetrics w) =
     Inr \<lparr> mt_totalOrders = parseInt (orZero (redis_strings w ''stats:total_orders'')),
           mt_successfulOrders = parseInt (orZero (redis_strings w ''stats:successful_orders'')),
           mt_failedOrders = parseInt (orZero (redis_strings w ''stats:failed_orders'')),
           mt_raydiumRouted = parseInt (orZero (redis_strings w ''stats:raydium_routed'')),
           mt_meteoraRouted = parseInt (orZero (redis_strings w ''stats:meteora_routed'')),
           mt_successRate =
             (if jsGreater (parseInt (orZero (redis_strings w ''stats:total_orders''))) (Num 0)
              then jsTimes (jsDivide (parseInt (orZero (redis_strings w ''stats:successful_orders'')))
                                     (parseInt (orZero (redis_strings w ''stats:total_orders''))))
                           (Num 100)
              else Num 0) \<rparr>"
  using faultAt_below [OF assms]
  by (simp add: getMetrics_def promiseAll2_def redis_get_def io_defs fault_simps Let_def)

lemma getMetrics_frame:
  "redis_strings (snd (getMetrics w)) = redis_strings w"
  "redis_hashes (snd (getMetrics w)) = redis_hashes w"
  "orders (snd (getMetrics w)) = orders w"
  "order_events (snd (getMetrics w)) = order_events w"
  unfolding getMetrics_def
  by (intro andThen_frame promiseAll2_frame;
      simp add: redis_get_def external_def fault_simps return_def Let_def split: option.splits prod.splits)+

text \<open>
  Claim C10. Whatever the cache holds, \<open>getMetrics\<close> returns its record when the five
  reads succeed: every counter is \<open>parseInt\<close> of the text stored under its key, and 0 when
  the key is absent (or holds the empty text). The success rate is
  \<open>successful / total * 100\<close> when the total is a number greater than 0, and 0 otherwise
  (a total of 0, a negative total, a total that is no number), so the division is made
  by a positive number only. The call changes nothing in the cache or the store.
\<close>

theorem getMetrics_total:
  assumes "faultAt w 0 = None" "faultAt w 1 = None" "faultAt w 2 = None" "faultAt w 3 = None"
    "faultAt w 4 = None"
  shows "\<exists>m. fst (getMetrics w) = Inr m
     \<and> mt_totalOrders m = parseInt (orZero (redis_strings w ''stats:total_orders''))
     \<and> mt_successfulOrders m = parseInt (orZero (redis_strings w ''stats:successful_orders''))
     \<and> mt_failedOrders m = parseInt (orZero (redis_strings w ''stats:failed_orders''))
     \<and> mt_raydiumRouted m = parseInt (orZero (redis_strings w ''stats:raydium_routed''))
     \<and> mt_meteoraRouted m = parseInt (orZero (redis_strings w ''stats:meteora_routed''))
     \<and> (redis_strings w ''stats:total_orders'' = None \<longrightarrow> mt_totalOrders m = Num 0)
     \<and> (redis_strings w ''stats:successful_orders'' = None \<longrightarrow> mt_successfulOrders m = Num 0)
     \<and> (redis_strings w ''stats:failed_orders'' = None \<longrightarrow> mt_failedOrders m = Num 0)
     \<and> (redis_strings w ''stats:raydium_routed'' = None \<longrightarrow> mt_raydiumRouted m = Num 0)
     \<and> (redis_strings w ''stats:meteora_routed'' = None \<longrightarrow> mt_meteoraRouted m = Num 0)
     \<and> (\<forall>t. mt_totalOrders m = Num t \<and> 0 < t \<longrightarrow>
           mt_successRate m = jsTimes (jsDivide (mt_successfulOrders m) (Num t)) (Num 100))
     \<and> ((\<nexists>t. mt_totalOrders m = Num t \<and> 0 < t) \<longrightarrow> mt_successRate m = Num 0)
     \<and> redis_strings (snd (getMetrics w)) = redis_strings w
     \<and> redis_hashes (snd (getMetrics w)) = redis_hashes w
     \<and> orders (snd (getMetrics w)) = orders w
     \<and> order_events (snd (getMetrics w)) = order_events w"
  using getMetrics_result [OF assms] parseInt_zero
    jsGreater_zero [of "orZero (redis_strings w ''stats:total_orders'')"]
  by (auto simp: getMetrics_frame)

text \<open>The counters of the unit test give a rate of 90; the empty cache gives zeros; a total
  that is no number gives the rate 0.\<close>

theorem getMetrics_total_witness:
  "faultAt countedWorld 0 = None \<and> faultAt countedWorld 1 = None \<and> faultAt countedWorld 2 = None
   \<and> faultAt countedWorld 3 = None \<and> faultAt countedWorld 4 = None
   \<and> (\<exists>m. fst (getMetrics countedWorld) = Inr m
          \<and> mt_totalOrders m = Num 100 \<and> mt_successfulOrders m = Num 90
          \<and> mt_successRate m = Num 90)
   \<and> (\<exists>m. fst (getMetrics emptyWorld) = Inr m
          \<and> mt_totalOrders m = Num 0 \<and> mt_successfulOrders m = Num 0
          \<and> mt_successRate m = Num 0)
   \<and> (\<exists>m. fst (getMetrics garbledWorld) = Inr m
          \<and> mt_totalOrders m = NaN \<and> mt_successfulOrders m = Num 90
          \<and> mt_successRate m = Num 0)"
proof -
  have f1: "faultAt countedWorld 0 = None" "faultAt countedWorld 1 = None"
    "faultAt countedWorld 2 = None" "faultAt countedWorld 3 = None" "faultAt countedWorld 4 = None"
    by (simp_all add: faultAt_def countedWorld_def emptyWorld_def)
  have f2: "faultAt emptyWorld 0 = None" "faultAt emptyWorld 1 = None"
    "faultAt emptyWorld 2 = None" "faultAt emptyWorld 3 = None" "faultAt emptyWorld 4 = None"
    by (simp_all add: faultAt_def emptyWorld_def)
  have f3: "faultAt garbledWorld 0 = None" "faultAt garbledWorld 1 = None"
    "faultAt garbledWorld 2 = None" "faultAt garbledWorld 3 = None" "faultAt garbledWorld 4 = None"
    by (simp_all add: faultAt_def garbledWorld_def emptyWorld_def)
  have p: "parseInt ''100'' = Num 100" "parseInt ''90'' = Num 90" "parseInt ''0'' = Num 0"
    "parseInt ''many'' = NaN"
    by (simp_all add: parse_defs)
  from getMetrics_total [OF f1] obtain m1 where m1: "fst (getMetrics countedWorld) = Inr m1"
    "mt_totalOrders m1 = parseInt (orZero (redis_strings countedWorld ''stats:total_orders''))"
    "mt_successfulOrders m1 = parseInt (orZero (redis_strings countedWorld ''stats:successful_orders''))"
    "\<forall>t. mt_totalOrders m1 = Num t \<and> 0 < t \<longrightarrow>
           mt_successRate m1 = jsTimes (jsDivide (mt_successfulOrders m1) (Num t)) (Num 100)"
    by (elim exE conjE)
  from getMetrics_total [OF f2] obtain m2 where m2: "fst (getMetrics emptyWorld) = Inr m2"
    "mt_totalOrders m2 = parseInt (orZero (redis_strings emptyWorld ''stats:total_orders''))"
    "mt_successfulOrders m2 = parseInt (orZero (redis_strings emptyWorld ''stats:successful_orders''))"
    "(\<nexists>t. mt_totalOrders m2 = Num t \<and> 0 < t) \<longrightarrow> mt_successRate m2 = Num 0"
    by (elim exE conjE)
  from getMetrics_total [OF f3] obtain m3 where m3: "fst (getMetrics garbledWorld) = Inr m3"
    "mt_totalOrders m3 = parseInt (orZero (redis_strings garbledWorld ''stats:total_orders''))"
    "mt_successfulOrders m3 = parseInt (orZero (redis_strings garbledWorld ''stats:successful_orders''))"
    "(\<nexists>t. mt_totalOrders m3 = Num t \<and> 0 < t) \<longrightarrow> mt_successRate m3 = Num 0"
    by (elim exE conjE)
  have t1: "mt_totalOrders m1 = Num 100" "mt_successfulOrders m1 = Num 90"
    using m1(2,3) by (simp_all add: countedWorld_def emptyWorld_def orZero_def p)
  with m1(4) have r1: "mt_successRate m1 = Num 90" by simp
  have t2: "mt_totalOrders m2 = Num 0" "mt_successfulOrders m2 = Num 0"
    using m2(2,3) by (simp_all add: emptyWorld_def orZero_def p)
  with m2(4) have r2: "mt_successRate m2 = Num 0" by simp
  have t3: "mt_totalOrders m3 = NaN" "mt_successfulOrders m3 = Num 90"
    using m3(2,3) by (simp_all add: garbledWorld_def emptyWorld_def orZero_def p)
  with m3(4) have r3: "mt_successRate m3 = Num 0" by simp
  show ?thesis
    using f1 m1(1) t1 r1 m2(1) t2 r2 m3(1) t3 r3 by blast
qed

end
